theory Spec2Isabelle
  imports Main "HOL-Library.Sublist"
begin

section \<open>JavaScript values\<close>

text \<open>
  The library works on plain JavaScript objects. A value is one of the JSON-like shapes
  below; an object is an association list in the enumeration order of \<open>Object.keys\<close>,
  which is the order every loop of the source visits it in. Numbers are passed through
  unchanged by every function modelled here and are kept as integers. Inherited
  (prototype) properties are outside the model: \<open>key in obj\<close> and \<open>obj[key]\<close> see own
  properties only.
\<close>

datatype jsval =
    JUndefined
  | JNull
  | JBool bool
  | JNum int
  | JStr string
  | JArr "jsval list"
  | JObj "(string \<times> jsval) list"

type_synonym jsobject = "(string \<times> jsval) list"

text \<open>The truthiness test of \<open>if (v)\<close>, \<open>v || d\<close> and \<open>v && w\<close>.\<close>

fun truthy :: "jsval \<Rightarrow> bool" where
  "truthy JUndefined = False"
| "truthy JNull = False"
| "truthy (JBool b) = b"
| "truthy (JNum n) = (n \<noteq> 0)"
| "truthy (JStr s) = (s \<noteq> [])"
| "truthy (JArr xs) = True"
| "truthy (JObj ps) = True"

text \<open>\<open>obj[key]\<close> on an object: the own property, or \<open>undefined\<close>.\<close>

definition getProp :: "jsobject \<Rightarrow> string \<Rightarrow> jsval" where
  "getProp obj key = (case map_of obj key of None \<Rightarrow> JUndefined | Some v \<Rightarrow> v)"

text \<open>\<open>v || d\<close>.\<close>

definition orElse :: "jsval \<Rightarrow> jsval \<Rightarrow> jsval" where
  "orElse v d = (if truthy v then v else d)"

text \<open>
  What a failing call throws or rejects with. \<open>TypeError\<close> and \<open>SyntaxError\<close> are the
  JavaScript built-in errors (a property read on \<open>undefined\<close>, a call of something that is
  no function, a text \<open>JSON.parse\<close> refuses); the others are the \<open>Error(...)\<close> values the
  library itself creates and the errors its collaborators report.
\<close>

datatype error =
    TypeError
  | SyntaxError
  | CreatorError string
  | StatementError string
  | FinalizeError string
  | IndexDoesntMatchSchema
  | SchemasDontCoincide
  | UniqueIndexOneKey
  | UniqueIndexSortOrder
  | EngineError string

definition bindE :: "error + 'a \<Rightarrow> ('a \<Rightarrow> error + 'b) \<Rightarrow> error + 'b" where
  "bindE r f = (case r of Inl e \<Rightarrow> Inl e | Inr x \<Rightarrow> f x)"

text \<open>Decimal text of an array index, as an object key.\<close>

fun showNat :: "nat \<Rightarrow> string" where
  "showNat n =
     (if n < 10 then [char_of (48 + n)]
      else showNat (n div 10) @ [char_of (48 + n mod 10)])"

text \<open>
  \<open>x[i]\<close> for an index \<open>i\<close>: a TypeError on \<open>undefined\<close> and \<open>null\<close>, the element of an
  array, the character of a string, the property of an object, \<open>undefined\<close> otherwise.
\<close>

fun jsIndex :: "jsval \<Rightarrow> nat \<Rightarrow> error + jsval" where
  "jsIndex JUndefined i = Inl TypeError"
| "jsIndex JNull i = Inl TypeError"
| "jsIndex (JArr xs) i = Inr (if i < length xs then xs ! i else JUndefined)"
| "jsIndex (JStr s) i = Inr (if i < length s then JStr [s ! i] else JUndefined)"
| "jsIndex (JObj ps) i = Inr (getProp ps (showNat i))"
| "jsIndex (JBool b) i = Inr JUndefined"
| "jsIndex (JNum n) i = Inr JUndefined"

text \<open>
  The (value, key) pairs lodash's \<open>_.forEach\<close> and \<open>_.map\<close> visit: the own properties of
  an object, the elements of an array or the characters of a string under their indices,
  nothing for any other value.
\<close>

fun entries :: "jsval \<Rightarrow> jsobject" where
  "entries (JObj ps) = ps"
| "entries (JArr xs) = zip (map showNat [0..<length xs]) xs"
| "entries (JStr s) = zip (map showNat [0..<length s]) (map (\<lambda>c. JStr [c]) s)"
| "entries v = []"

text \<open>\<open>String.prototype.toLowerCase\<close> and \<open>toUpperCase\<close>, on ASCII letters.\<close>

definition toLowerChar :: "char \<Rightarrow> char" where
  "toLowerChar c =
     (let n = (of_char c :: nat) in if 65 \<le> n \<and> n \<le> 90 then char_of (n + 32) else c)"

definition toUpperChar :: "char \<Rightarrow> char" where
  "toUpperChar c =
     (let n = (of_char c :: nat) in if 97 \<le> n \<and> n \<le> 122 then char_of (n - 32) else c)"

definition toLowerCase :: "string \<Rightarrow> string" where
  "toLowerCase s = map toLowerChar s"

definition toUpperCase :: "string \<Rightarrow> string" where
  "toUpperCase s = map toUpperChar s"

text \<open>
  An assignment \<open>obj[key] = v\<close>: an existing property keeps its place, a new one comes
  last.
\<close>

fun setProp :: "(string \<times> 'a) list \<Rightarrow> string \<Rightarrow> 'a \<Rightarrow> (string \<times> 'a) list" where
  "setProp [] key v = [(key, v)]"
| "setProp ((k, w) # ps) key v = (if k = key then (k, v) # ps else (k, w) # setProp ps key v)"

text \<open>\<open>Array.prototype.join()\<close> of texts, with the default separator, a comma.\<close>

fun joinKeys :: "string list \<Rightarrow> string" where
  "joinKeys [] = []"
| "joinKeys [k] = k"
| "joinKeys (k # k' # ks) = k @ '','' @ joinKeys (k' # ks)"

text \<open>The text of a value in a template literal (\<open>String(v)\<close>).\<close>

fun showInt :: "int \<Rightarrow> string" where
  "showInt n = (if n < 0 then CHR ''-'' # showNat (nat (- n)) else showNat (nat n))"

fun jsToString :: "jsval \<Rightarrow> string" where
  "jsToString JUndefined = ''undefined''"
| "jsToString JNull = ''null''"
| "jsToString (JBool b) = (if b then ''true'' else ''false'')"
| "jsToString (JNum n) = showInt n"
| "jsToString (JStr s) = s"
| "jsToString (JArr xs) =
     joinKeys (map (\<lambda>x. if x = JUndefined \<or> x = JNull then [] else jsToString x) xs)"
| "jsToString (JObj ps) = ''[object Object]''"

text \<open>lodash's \<open>_.isEmpty\<close>, and the truthiness of \<open>v.length\<close> for a value that is set.\<close>

fun isEmptyJS :: "jsval \<Rightarrow> bool" where
  "isEmptyJS (JObj ps) = (ps = [])"
| "isEmptyJS (JArr xs) = (xs = [])"
| "isEmptyJS (JStr s) = (s = [])"
| "isEmptyJS v = True"

fun hasLength :: "jsval \<Rightarrow> bool" where
  "hasLength (JArr xs) = (xs \<noteq> [])"
| "hasLength (JStr s) = (s \<noteq> [])"
| "hasLength (JObj ps) = truthy (getProp ps ''length'')"
| "hasLength v = False"

text \<open>
  lodash's \<open>_.isEqual\<close>, a deep comparison: arrays element by element, objects property
  by property whatever the order of their keys, other values by identity of value.
\<close>

fun isEqual :: "jsval \<Rightarrow> jsval \<Rightarrow> bool" where
  "isEqual (JArr xs) (JArr ys) = list_all2 isEqual xs ys"
| "isEqual (JObj ps) (JObj qs) =
     (length ps = length qs
      \<and> list_all (\<lambda>p. case map_of qs (fst p) of None \<Rightarrow> False | Some w \<Rightarrow> isEqual (snd p) w) ps)"
| "isEqual v w = (v = w)"

text \<open>Running a step over a list, stopping at the first error.\<close>

fun mapE :: "('a \<Rightarrow> error + 'b) \<Rightarrow> 'a list \<Rightarrow> error + 'b list" where
  "mapE f [] = Inr []"
| "mapE f (x # xs) = bindE (f x) (\<lambda>y. bindE (mapE f xs) (\<lambda>ys. Inr (y # ys)))"

section \<open>sqlite-constants.js\<close>

text \<open>
  Modelled from the spec: sqlite-constants.js is not among the sources. The seven general
  types carry the names the spec's glossary gives them (TEXT, INTEGER, REAL, NUMERIC,
  OBJECT, ARRAY, NDARRAY), the base types of a document type descriptor the names of the
  spec's section 4.1 and of the comment that closes sqlite-schema-converter.js
  (\<open>{"__tdxType": ["number"]}\<close>, "string", "boolean", "date"), the sort directions ASC and
  DESC. The constants whose values neither the sources nor the spec give are the fields
  of the record \<open>constants\<close>: the text \<open>TDX_TYPE_INT\<close> searched in a derived type, the
  test of the regular expression \<open>new RegExp(TDX_TYPE_REAL)\<close> on a value, the cap
  \<open>SQLITE_QUERY_LIMIT\<close>, and the names of the data table and of its index.
\<close>

definition SQLITE_TYPE_TEXT :: string where "SQLITE_TYPE_TEXT = ''TEXT''"
definition SQLITE_TYPE_INTEGER :: string where "SQLITE_TYPE_INTEGER = ''INTEGER''"
definition SQLITE_TYPE_REAL :: string where "SQLITE_TYPE_REAL = ''REAL''"
definition SQLITE_TYPE_NUMERIC :: string where "SQLITE_TYPE_NUMERIC = ''NUMERIC''"
definition SQLITE_GENERAL_TYPE_OBJECT :: string where "SQLITE_GENERAL_TYPE_OBJECT = ''OBJECT''"
definition SQLITE_GENERAL_TYPE_ARRAY :: string where "SQLITE_GENERAL_TYPE_ARRAY = ''ARRAY''"
definition SQLITE_GENERAL_TYPE_NDARRAY :: string where "SQLITE_GENERAL_TYPE_NDARRAY = ''NDARRAY''"
definition SQLITE_SORT_TYPE_ASC :: string where "SQLITE_SORT_TYPE_ASC = ''ASC''"
definition SQLITE_SORT_TYPE_DESC :: string where "SQLITE_SORT_TYPE_DESC = ''DESC''"
definition TDX_TYPE_NAME :: string where "TDX_TYPE_NAME = ''__tdxType''"
definition TDX_TYPE_STRING :: string where "TDX_TYPE_STRING = ''string''"
definition TDX_TYPE_BOOLEAN :: string where "TDX_TYPE_BOOLEAN = ''boolean''"
definition TDX_TYPE_DATE :: string where "TDX_TYPE_DATE = ''date''"
definition TDX_TYPE_NUMBER :: string where "TDX_TYPE_NUMBER = ''number''"

record constants =
  TDX_TYPE_INT :: string
  TDX_TYPE_REAL_test :: "jsval \<Rightarrow> bool"
  SQLITE_QUERY_LIMIT :: int
  DATABASE_DATA_TABLE_NAME :: string
  DATABASE_TABLE_INDEX_NAME :: string

section \<open>sqlite-schema-converter.js\<close>

subsection \<open>getBasicType\<close>

text \<open>
  \<open>tdxTypes[0] || ""\<close> and \<open>tdxTypes[1] || ""\<close>, then lower and upper case for the values
  that are strings.
\<close>

definition tdxBaseType :: "jsval \<Rightarrow> error + jsval" where
  "tdxBaseType tdxTypes =
     bindE (jsIndex tdxTypes 0) (\<lambda>t0.
       Inr (case orElse t0 (JStr []) of JStr s \<Rightarrow> JStr (toLowerCase s) | v \<Rightarrow> v))"

definition tdxDerivedType :: "jsval \<Rightarrow> error + jsval" where
  "tdxDerivedType tdxTypes =
     bindE (jsIndex tdxTypes 1) (\<lambda>t1.
       Inr (case orElse t1 (JStr []) of JStr s \<Rightarrow> JStr (toUpperCase s) | v \<Rightarrow> v))"

text \<open>
  \<open>tdxDerivedType.indexOf(TDX_TYPE_INT) >= 0\<close>: a substring search on a string, an
  element search on an array, a TypeError on a value that has no \<open>indexOf\<close>.
\<close>

fun indexOfFound :: "jsval \<Rightarrow> string \<Rightarrow> error + bool" where
  "indexOfFound (JStr d) t = Inr (sublist t d)"
| "indexOfFound (JArr ds) t = Inr (JStr t \<in> set ds)"
| "indexOfFound v t = Inl TypeError"

definition getBasicType :: "constants \<Rightarrow> jsval \<Rightarrow> error + string" where
  "getBasicType c tdxTypes =
     bindE (tdxBaseType tdxTypes) (\<lambda>base.
     bindE (tdxDerivedType tdxTypes) (\<lambda>derived.
       if base = JStr TDX_TYPE_STRING then Inr SQLITE_TYPE_TEXT
       else if base = JStr TDX_TYPE_BOOLEAN then Inr SQLITE_TYPE_NUMERIC
       else if base = JStr TDX_TYPE_DATE then Inr SQLITE_TYPE_NUMERIC
       else if base = JStr TDX_TYPE_NUMBER then
         bindE (indexOfFound derived (TDX_TYPE_INT c)) (\<lambda>isInt.
           if isInt then Inr SQLITE_TYPE_INTEGER
           else if TDX_TYPE_REAL_test c derived then Inr SQLITE_TYPE_REAL
           else Inr SQLITE_TYPE_NUMERIC)
       else Inr SQLITE_TYPE_TEXT))"

subsection \<open>mapSchema and convertSchema\<close>

definition mapSchema :: "(string \<times> string) list \<Rightarrow> (string \<times> string) list" where
  "mapSchema types =
     map (\<lambda>(key, v).
            if v = SQLITE_GENERAL_TYPE_OBJECT then (key, SQLITE_TYPE_TEXT)
            else if v = SQLITE_GENERAL_TYPE_ARRAY then (key, SQLITE_TYPE_TEXT)
            else (key, v)) types"

text \<open>
  The general type \<open>convertSchema\<close> gives one schema value: ARRAY for an array, the basic
  type of its \<open>__tdxType\<close> for an object that has one, OBJECT for any other object, and
  no column at all (\<open>None\<close>) for a value that is neither.
\<close>

fun convertType :: "constants \<Rightarrow> jsval \<Rightarrow> error + string option" where
  "convertType c (JArr xs) = Inr (Some SQLITE_GENERAL_TYPE_ARRAY)"
| "convertType c (JObj ps) =
     (if TDX_TYPE_NAME \<in> set (map fst ps)
      then bindE (getBasicType c (getProp ps TDX_TYPE_NAME)) (\<lambda>t. Inr (Some t))
      else Inr (Some SQLITE_GENERAL_TYPE_OBJECT))"
| "convertType c v = Inr None"

fun convertEntries :: "constants \<Rightarrow> jsobject \<Rightarrow> error + (string \<times> string) list" where
  "convertEntries c [] = Inr []"
| "convertEntries c ((key, v) # rest) =
     bindE (convertType c v) (\<lambda>t.
     bindE (convertEntries c rest) (\<lambda>more.
       Inr (case t of None \<Rightarrow> more | Some ty \<Rightarrow> (key, ty) # more)))"

definition convertSchema :: "constants \<Rightarrow> jsval \<Rightarrow> error + (string \<times> string) list" where
  "convertSchema c schema = convertEntries c (entries schema)"

subsection \<open>convertToSqlite and convertToTdx\<close>

text \<open>
  \<open>JSON.stringify\<close> and \<open>JSON.parse\<close> are the platform's: \<open>stringify\<close> gives the text of a
  value, or \<open>None\<close> where JavaScript gives \<open>undefined\<close>; \<open>parse\<close> gives the value of its
  argument or throws. Both are parameters. The flag \<open>onlyStringify\<close> is the truthiness of
  \<open>options.onlyStringify\<close>.
\<close>

definition doubleQuote :: char where
  "doubleQuote = CHR 0x22"

text \<open>The template \<open>`"${s.replace(/"/g, '""')}"`\<close>.\<close>

definition quoted :: "string \<Rightarrow> string" where
  "quoted s =
     doubleQuote # concat (map (\<lambda>ch. if ch = doubleQuote then [doubleQuote, doubleQuote] else [ch]) s)
       @ [doubleQuote]"

definition convertToSqlite ::
  "(jsval \<Rightarrow> string option) \<Rightarrow> string \<Rightarrow> jsval \<Rightarrow> bool \<Rightarrow> error + jsval" where
  "convertToSqlite stringify ty v onlyStringify =
     (if ty = SQLITE_GENERAL_TYPE_OBJECT \<or> ty = SQLITE_GENERAL_TYPE_ARRAY then
        (if onlyStringify
         then Inr (case stringify v of None \<Rightarrow> JUndefined | Some s \<Rightarrow> JStr s)
         else (case stringify v of None \<Rightarrow> Inl TypeError | Some s \<Rightarrow> Inr (JStr (quoted s))))
      else if ty = SQLITE_TYPE_NUMERIC \<or> ty = SQLITE_TYPE_INTEGER \<or> ty = SQLITE_TYPE_REAL then
        Inr v
      else if ty = SQLITE_TYPE_TEXT then
        (if onlyStringify then Inr v
         else (case v of JStr s \<Rightarrow> Inr (JStr (quoted s)) | _ \<Rightarrow> Inl TypeError))
      else Inr JNull)"

definition convertToTdx :: "(jsval \<Rightarrow> error + jsval) \<Rightarrow> string \<Rightarrow> jsval \<Rightarrow> error + jsval" where
  "convertToTdx parse ty v =
     (if ty = SQLITE_GENERAL_TYPE_OBJECT \<or> ty = SQLITE_GENERAL_TYPE_ARRAY then parse v
      else if ty = SQLITE_TYPE_NUMERIC \<or> ty = SQLITE_TYPE_INTEGER \<or> ty = SQLITE_TYPE_REAL then
        Inr v
      else if ty = SQLITE_TYPE_TEXT then Inr v
      else Inr JNull)"

text \<open>Encoding a value and decoding the result, \<open>convertToTdx(t, convertToSqlite(t, v, options))\<close>.\<close>

definition roundTrip ::
  "(jsval \<Rightarrow> string option) \<Rightarrow> (jsval \<Rightarrow> error + jsval) \<Rightarrow> string \<Rightarrow> jsval \<Rightarrow> bool
     \<Rightarrow> error + jsval" where
  "roundTrip stringify parse ty v onlyStringify =
     bindE (convertToSqlite stringify ty v onlyStringify) (convertToTdx parse ty)"

section \<open>sqlite-helper.js: executeMany\<close>

text \<open>
  A data row is an object; \<open>Object.keys\<close> and \<open>Object.values\<close> list its columns and
  its values in the same order. \<open>dataRowKeys.join()\<close> is the text of the keys with a comma
  between them: it is the key of the statement cache.
\<close>

definition objectKeys :: "jsobject \<Rightarrow> string list" where
  "objectKeys obj = map fst obj"

definition objectValues :: "jsobject \<Rightarrow> jsval list" where
  "objectValues obj = map snd obj"

text \<open>
  What \<open>executeMany\<close> submits to the connection, in the order of submission. A prepared
  statement is named by the number of statements created before it in the same call.
\<close>

datatype command =
    BeginTransaction
  | Prepare nat string
  | Run nat "jsval list"
  | CommitTransaction
  | Finalize nat

text \<open>
  The loop over the data rows, from a given cache (a JavaScript \<open>Map\<close>, in insertion
  order). The statement creator returns the text of a statement or throws; a throw ends
  the loop (the \<open>catch\<close> block). The result holds the cache at the end of the loop, the
  commands the loop submitted, the key lists the creator was called with, and what was
  thrown.
\<close>

record loopResult =
  cachedStatements :: "(string \<times> nat) list"
  loopCommands :: "command list"
  creatorCalls :: "string list list"
  thrown :: "error option"

fun rowLoop :: "(string list \<Rightarrow> error + string) \<Rightarrow> (string \<times> nat) list \<Rightarrow> jsobject list
    \<Rightarrow> loopResult" where
  "rowLoop sqliteStatementCreator cache [] =
     \<lparr>cachedStatements = cache, loopCommands = [], creatorCalls = [], thrown = None\<rparr>"
| "rowLoop sqliteStatementCreator cache (dataRow # rows) =
     (let dataRowKeys = objectKeys dataRow in
      case map_of cache (joinKeys dataRowKeys) of
        Some statement \<Rightarrow>
          (let r = rowLoop sqliteStatementCreator cache rows
           in r\<lparr>loopCommands := Run statement (objectValues dataRow) # loopCommands r\<rparr>)
      | None \<Rightarrow>
          (case sqliteStatementCreator dataRowKeys of
             Inl e \<Rightarrow>
               \<lparr>cachedStatements = cache, loopCommands = [], creatorCalls = [dataRowKeys],
                thrown = Some e\<rparr>
           | Inr sqliteStatementString \<Rightarrow>
               (let statement = length cache;
                    r = rowLoop sqliteStatementCreator
                          (cache @ [(joinKeys dataRowKeys, statement)]) rows
                in r\<lparr>loopCommands :=
                        Prepare statement sqliteStatementString
                          # Run statement (objectValues dataRow) # loopCommands r,
                      creatorCalls := dataRowKeys # creatorCalls r\<rparr>)))"

text \<open>
  The connection runs the commands one after the other (\<open>db.serialize\<close>) and calls each
  command's callback when the command is done. \<open>engine i\<close> is the error the \<open>i\<close>-th command
  submitted ends with, if any. Only \<open>prepare\<close>, \<open>run\<close> and \<open>finalize\<close> are given a
  callback: an error of a \<open>prepare\<close> or a \<open>run\<close> rejects with \<open>Error(error)\<close>, an error of
  a \<open>finalize\<close> rejects through \<open>Promise.all\<close>; the two \<open>db.run\<close> of the transaction have
  none.
\<close>

fun callbackError :: "command \<Rightarrow> string option \<Rightarrow> error list" where
  "callbackError (Prepare st sql) (Some e) = [StatementError e]"
| "callbackError (Run st vs) (Some e) = [StatementError e]"
| "callbackError (Finalize st) (Some e) = [FinalizeError e]"
| "callbackError cmd r = []"

fun callbackErrors :: "(nat \<Rightarrow> string option) \<Rightarrow> nat \<Rightarrow> command list \<Rightarrow> error list" where
  "callbackErrors engine i [] = []"
| "callbackErrors engine i (cmd # cmds) =
     callbackError cmd (engine i) @ callbackErrors engine (Suc i) cmds"

text \<open>
  A promise is settled by the first \<open>resolve\<close> or \<open>reject\<close> that reaches it. The \<open>reject\<close>
  of the \<open>catch\<close> block runs while the commands are being submitted, before any callback;
  the callbacks follow in the order of the commands; \<open>resolve\<close> runs when every
  \<open>finalize\<close> has succeeded.
\<close>

datatype outcome = Resolved | Rejected error

record executeResult =
  issued :: "command list"
  compiled :: "string list list"
  settled :: outcome

definition executeMany :: "(nat \<Rightarrow> string option) \<Rightarrow> (string list \<Rightarrow> error + string)
    \<Rightarrow> jsobject list \<Rightarrow> executeResult" where
  "executeMany engine sqliteStatementCreator data =
     (let r = rowLoop sqliteStatementCreator [] data;
          commands = BeginTransaction # loopCommands r
            @ CommitTransaction # map (\<lambda>(k, statement). Finalize statement) (cachedStatements r)
      in \<lparr>issued = commands,
          compiled = creatorCalls r,
          settled =
            (case thrown r of
               Some e \<Rightarrow> Rejected e
             | None \<Rightarrow>
                 (case callbackErrors engine 0 commands of
                    [] \<Rightarrow> Resolved
                  | e # es \<Rightarrow> Rejected e))\<rparr>)"

text \<open>Views of a list of commands: the rows run, and the statements prepared.\<close>

fun runsOf :: "command list \<Rightarrow> (nat \<times> jsval list) list" where
  "runsOf [] = []"
| "runsOf (Run st vs # cmds) = (st, vs) # runsOf cmds"
| "runsOf (cmd # cmds) = runsOf cmds"

fun preparesOf :: "command list \<Rightarrow> (nat \<times> string) list" where
  "preparesOf [] = []"
| "preparesOf (Prepare st sql # cmds) = (st, sql) # preparesOf cmds"
| "preparesOf (cmd # cmds) = preparesOf cmds"

fun isStatementCommand :: "command \<Rightarrow> bool" where
  "isStatementCommand (Prepare st sql) = True"
| "isStatementCommand (Run st vs) = True"
| "isStatementCommand cmd = False"

section \<open>The database and its info table\<close>

text \<open>
  The state of a connection as the library sees it: the info table (absent until a
  dataset is created), the general schema cached on the connection object
  (\<open>db.generalSchema\<close>), and the statements run through \<open>db.runAsync\<close>.
\<close>

record database =
  infoTable :: "jsobject option"
  generalSchema :: "(string \<times> string) list option"
  executed :: "string list"

text \<open>
  Modelled from the spec: sqlite-info-table.js is not among the sources. The spec names
  it the metadata/info-table collaborator, the on-disk table that stores the schema and
  the properties of the resource; the callers in sqlite-manager.js fix the shapes used
  here. \<open>checkInfoTable\<close> tells whether the table exists; \<open>createInfoTable\<close> creates it
  empty; \<open>setInfoKeys\<close> stores one value per key; \<open>getInfoKeys\<close> returns, for the keys
  asked that are stored and in the order asked, the one-property objects
  \<open>{key: value}\<close> (the callers read \<open>pair[0].id\<close>, \<open>pair[1].schema\<close> and test
  \<open>tdxSchema.length\<close>), and fails when there is no table.
\<close>

definition checkInfoTable :: "database \<Rightarrow> bool" where
  "checkInfoTable db = (infoTable db \<noteq> None)"

definition createInfoTable :: "database \<Rightarrow> database" where
  "createInfoTable db = db\<lparr>infoTable := Some []\<rparr>"

definition setInfoKeys :: "database \<Rightarrow> jsobject \<Rightarrow> error + database" where
  "setInfoKeys db pairs =
     (case infoTable db of
        None \<Rightarrow> Inl (EngineError ''no such table: info'')
      | Some info \<Rightarrow> Inr (db\<lparr>infoTable := Some (fold (\<lambda>(k, v) t. setProp t k v) pairs info)\<rparr>))"

definition getInfoKeys :: "database \<Rightarrow> string list \<Rightarrow> error + jsobject list" where
  "getInfoKeys db keys =
     (case infoTable db of
        None \<Rightarrow> Inl (EngineError ''no such table: info'')
      | Some info \<Rightarrow>
          Inr (concat (map (\<lambda>k. case map_of info k of None \<Rightarrow> [] | Some v \<Rightarrow> [[(k, v)]]) keys)))"

section \<open>sqlite-manager.js\<close>

subsection \<open>getGeneralSchema\<close>

text \<open>
  \<open>schema.dataSchema || {}\<close> of a stored schema \<open>schema || {}\<close>. The source assigns the
  defaults into the object, which in strict mode is a TypeError on a value that is no
  object. A schema is an object in every documented use; an array, which JavaScript would
  let carry the properties, is outside the value model and treated like the other
  values.
\<close>

definition dataSchemaOf :: "jsval \<Rightarrow> error + jsval" where
  "dataSchemaOf stored =
     (case orElse stored (JObj []) of
        JObj sch \<Rightarrow> Inr (orElse (getProp sch ''dataSchema'') (JObj []))
      | _ \<Rightarrow> Inl TypeError)"

definition getGeneralSchema :: "constants \<Rightarrow> database
    \<Rightarrow> (error + (string \<times> string) list) \<times> database" where
  "getGeneralSchema c db =
     (case generalSchema db of
        Some cachedGeneralSchema \<Rightarrow> (Inr cachedGeneralSchema, db)
      | None \<Rightarrow>
          (case getInfoKeys db [''schema''] of
             Inl e \<Rightarrow> (Inl e, db)
           | Inr [] \<Rightarrow> (Inr [], db)
           | Inr (tdxSchema0 # others) \<Rightarrow>
               (case bindE (dataSchemaOf (getProp tdxSchema0 ''schema'')) (convertSchema c) of
                  Inl e \<Rightarrow> (Inl e, db)
                | Inr thisGeneralSchema \<Rightarrow>
                    (Inr thisGeneralSchema, db\<lparr>generalSchema := Some thisGeneralSchema\<rparr>))))"

subsection \<open>createDataset\<close>

text \<open>
  The defaults \<open>createDataset\<close> writes into its options: an id (\<open>shortid.generate()\<close>, here
  the parameter \<open>freshId\<close>), a schema, its data schema and its unique index.
\<close>

definition withDefaults :: "string \<Rightarrow> jsobject \<Rightarrow> error + jsobject" where
  "withDefaults freshId options =
     (let options1 = setProp options ''id'' (orElse (getProp options ''id'') (JStr freshId)) in
      case orElse (getProp options1 ''schema'') (JObj []) of
        JObj sch \<Rightarrow>
          (let sch1 = setProp sch ''dataSchema'' (orElse (getProp sch ''dataSchema'') (JObj []));
               sch2 = setProp sch1 ''uniqueIndex'' (orElse (getProp sch1 ''uniqueIndex'') (JArr []))
           in Inr (setProp options1 ''schema'' (JObj sch2)))
      | _ \<Rightarrow> Inl TypeError)"

text \<open>\<open>options.schema.dataSchema\<close> and \<open>options.schema.uniqueIndex\<close>, once the defaults are in.\<close>

definition schemaPart :: "jsobject \<Rightarrow> string \<Rightarrow> jsval" where
  "schemaPart options key =
     (case getProp options ''schema'' of JObj sch \<Rightarrow> getProp sch key | _ \<Rightarrow> JUndefined)"

text \<open>The early throw: a unique index but no data schema.\<close>

definition indexWithoutSchema :: "jsobject \<Rightarrow> bool" where
  "indexWithoutSchema options =
     (isEmptyJS (schemaPart options ''dataSchema'') \<and> hasLength (schemaPart options ''uniqueIndex''))"

text \<open>
  One entry of the unique index, \<open>{asc: column}\<close> or \<open>{desc: column}\<close>, as the text
  \<open>column ASC\<close> or \<open>column DESC\<close>.
\<close>

definition objectEntries :: "jsval \<Rightarrow> error + jsobject" where
  "objectEntries v = (if v = JUndefined \<or> v = JNull then Inl TypeError else Inr (entries v))"

definition primaryKeyStr :: "jsval \<Rightarrow> error + string" where
  "primaryKeyStr v =
     bindE (objectEntries v) (\<lambda>es.
       case es of
         [(sortOrder, sortKey)] \<Rightarrow>
           (if sortOrder = ''asc'' then Inr (jsToString sortKey @ '' '' @ SQLITE_SORT_TYPE_ASC)
            else if sortOrder = ''desc'' then Inr (jsToString sortKey @ '' '' @ SQLITE_SORT_TYPE_DESC)
            else Inl UniqueIndexSortOrder)
       | _ \<Rightarrow> Inl UniqueIndexOneKey)"

text \<open>\<open>db.runAsync\<close>: the engine runs a statement or reports an error (\<open>runAsync sql\<close>).\<close>

definition runStatement :: "(string \<Rightarrow> string option) \<Rightarrow> database \<Rightarrow> string
    \<Rightarrow> error + database" where
  "runStatement runAsync db sql =
     (case runAsync sql of
        Some e \<Rightarrow> Inl (EngineError e)
      | None \<Rightarrow> Inr (db\<lparr>executed := executed db @ [sql]\<rparr>))"

text \<open>The branch of \<open>createDataset\<close> that finds no info table and creates the dataset.\<close>

definition createNewDataset :: "constants \<Rightarrow> (string \<Rightarrow> string option) \<Rightarrow> database \<Rightarrow> jsobject
    \<Rightarrow> (error + jsval) \<times> database" where
  "createNewDataset c runAsync db options =
     (case setInfoKeys (createInfoTable db) options of
        Inl e \<Rightarrow> (Inl e, createInfoTable db)
      | Inr db1 \<Rightarrow>
          (case getGeneralSchema c db1 of
             (Inl e, db2) \<Rightarrow> (Inl e, db2)
           | (Inr schema, db2) \<Rightarrow>
               (let tableColumnStr = joinKeys (map (\<lambda>(key, v). key @ '' '' @ v) (mapSchema schema)) in
                case (case schemaPart options ''uniqueIndex'' of
                        JArr uniqueIndex \<Rightarrow> mapE primaryKeyStr uniqueIndex
                      | _ \<Rightarrow> Inl TypeError) of
                  Inl e \<Rightarrow> (Inl e, db2)
                | Inr sqlitePrimaryKeyStrArr \<Rightarrow>
                    (let sqlitePrimaryKeyStr = joinKeys sqlitePrimaryKeyStrArr in
                     if tableColumnStr \<noteq> [] then
                       (case runStatement runAsync db2
                               (''CREATE TABLE '' @ DATABASE_DATA_TABLE_NAME c
                                  @ ''('' @ tableColumnStr @ '')'') of
                          Inl e \<Rightarrow> (Inl e, db2)
                        | Inr db3 \<Rightarrow>
                            if sqlitePrimaryKeyStr \<noteq> [] then
                              (case runStatement runAsync db3
                                      (''CREATE UNIQUE INDEX '' @ DATABASE_TABLE_INDEX_NAME c
                                         @ '' ON '' @ DATABASE_DATA_TABLE_NAME c
                                         @ ''('' @ sqlitePrimaryKeyStr @ '')'') of
                                 Inl e \<Rightarrow> (Inl e, db3)
                               | Inr db4 \<Rightarrow> (Inr (getProp options ''id''), db4))
                            else (Inr (getProp options ''id''), db3))
                     else (Inr (getProp options ''id''), db2)))))"

text \<open>
  \<open>createDataset\<close>. When the info table exists the stored id and schema are read and the
  stored id replaces the one of the options; \<open>pair[0]\<close> and \<open>pair[1]\<close> must exist for the
  reads \<open>pair[0].id\<close> and \<open>pair[1].schema\<close>.
\<close>

definition createDataset :: "constants \<Rightarrow> (string \<Rightarrow> string option) \<Rightarrow> string \<Rightarrow> database
    \<Rightarrow> jsobject \<Rightarrow> (error + jsval) \<times> database" where
  "createDataset c runAsync freshId db options0 =
     (case withDefaults freshId options0 of
        Inl e \<Rightarrow> (Inl e, db)
      | Inr options \<Rightarrow>
          if indexWithoutSchema options then (Inl IndexDoesntMatchSchema, db)
          else if checkInfoTable db then
            (case getInfoKeys db [''id'', ''schema''] of
               Inl e \<Rightarrow> (Inl e, db)
             | Inr (pair0 # pair1 # others) \<Rightarrow>
                 (let storedId = orElse (getProp pair0 ''id'') (JStr []);
                      storedSchema = orElse (getProp pair1 ''schema'') (JObj [])
                  in if \<not> isEqual storedSchema (getProp options ''schema'')
                     then (Inl SchemasDontCoincide, db)
                     else (Inr storedId, db))
             | Inr _ \<Rightarrow> (Inl TypeError, db))
          else createNewDataset c runAsync db options)"

subsection \<open>pick, warn and findCollectionKeys\<close>




definition findCollectionKeys :: "(string \<times> string) list \<Rightarrow> string \<Rightarrow> string list" where
  "findCollectionKeys collection searchValue =
     map fst (filter (\<lambda>(key, v). v = searchValue) collection)"

subsection \<open>addData\<close>








subsection \<open>getDataQuery\<close>

record queryOptions =
  optSkip :: jsval
  optLimit :: "int option"
  optSort :: jsval
  optNqmMeta :: jsval

text \<open>The query handed to the query builder (mongo-sql).\<close>

record selectQuery =
  sqDistinct :: bool
  sqTable :: string
  sqWhere :: jsval
  sqLimit :: int
  sqOffset :: "jsval option"
  sqOrder :: "(string \<times> string) list option"
  sqColumns :: "string list option"

paragraph \<open>The limit of a query\<close>

text \<open>
  \<open>getDataQuery\<close> first sets \<open>selectQuery.limit = queryLimit\<close> and then overrides it with
  the requested limit under the guard \<open>limit && (limit < queryLimit || limit < 0)\<close>.
  The cap \<open>queryLimit\<close> is the constant \<open>SQLITE_QUERY_LIMIT\<close>.
  \<open>options.limit\<close> is \<open>None\<close> when the caller gave none (\<open>undefined\<close>).
\<close>

definition selectLimit :: "int \<Rightarrow> int option \<Rightarrow> int" where
  "selectLimit queryLimit limit =
     (case limit of
        None \<Rightarrow> queryLimit
      | Some l \<Rightarrow> if l \<noteq> 0 \<and> (l < queryLimit \<or> l < 0) then l else queryLimit)"

text \<open>The sort order: 1 is ascending, -1 descending, any other value is skipped.\<close>

definition sortQueryOf :: "jsval \<Rightarrow> (string \<times> string) list" where
  "sortQueryOf sortOption =
     fold (\<lambda>(key, v) sortQuery.
             if v = JNum 1 then setProp sortQuery key SQLITE_SORT_TYPE_ASC
             else if v = JNum (- 1) then setProp sortQuery key SQLITE_SORT_TYPE_DESC
             else sortQuery)
       (entries (orElse sortOption (JObj []))) []"

text \<open>
  The projection: \<open>excludedColumns\<close> starts as the columns of the schema and loses the
  keys projected to a falsy value (\<open>indexOf\<close> and \<open>splice\<close> remove the first occurrence);
  \<open>includedColumns\<close> collects the keys projected to a truthy value. Keys that are no
  column of the schema are skipped. The pair is (excluded, included).
\<close>

definition projectionStep :: "string list \<Rightarrow> string \<times> jsval \<Rightarrow> string list \<times> string list
    \<Rightarrow> string list \<times> string list" where
  "projectionStep schemaKeys p cols =
     (if fst p \<in> set schemaKeys then
        (if truthy (snd p) then (fst cols, snd cols @ [fst p])
         else (remove1 (fst p) (fst cols), snd cols))
      else cols)"

definition projectionColumns :: "(string \<times> string) list \<Rightarrow> jsval \<Rightarrow> string list \<times> string list" where
  "projectionColumns schema projection =
     fold (projectionStep (map fst schema)) (entries (orElse projection (JObj [])))
       (map fst schema, [])"

text \<open>\<open>selectQuery.columns\<close>: the included columns if there are any, else the excluded list
  if it is not empty, else not set.\<close>

definition selectColumns :: "string list \<times> string list \<Rightarrow> string list option" where
  "selectColumns cols =
     (if snd cols \<noteq> [] then Some (snd cols)
      else if fst cols \<noteq> [] \<and> snd cols = [] then Some (fst cols)
      else None)"

definition resolvedColumns :: "(string \<times> string) list \<Rightarrow> jsval \<Rightarrow> string list option" where
  "resolvedColumns schema projection = selectColumns (projectionColumns schema projection)"

text \<open>
  Modelled from the spec: the query builder is the external collaborator that turns the
  query into SQL text and bind values (\<open>builderSql\<close> below, a parameter). After the call
  \<open>getDataQuery\<close> reads \<open>selectQuery.columns\<close> even when it has set none, and compares it
  with \<open>["*"]\<close> ("Return early if no columns selected"): the builder writes the list
  \<open>["*"]\<close>, all columns, into a query that names no columns.
\<close>

definition builderColumns :: "selectQuery \<Rightarrow> string list" where
  "builderColumns q = (case sqColumns q of None \<Rightarrow> [''*''] | Some cols \<Rightarrow> cols)"

text \<open>
  What a read depends on beside the database: \<open>JSON.parse\<close>, the builder, the rows the
  engine returns for a query (\<open>db.allAsync\<close>), the resource of \<open>getResource(db)\<close> and
  \<open>readNdarrayMany\<close> of sqlite-ndarray.js.
\<close>

record readEnv =
  jsonParse :: "jsval \<Rightarrow> error + jsval"
  builderSql :: "selectQuery \<Rightarrow> error + string \<times> jsval list"
  allAsync :: "string \<Rightarrow> jsval list \<Rightarrow> error + jsobject list"
  getResource :: "error + jsval"
  readNdarrayMany :: "jsobject list \<Rightarrow> string list \<Rightarrow> error + jsobject list"

datatype queryResult =
    DatasetData "jsobject list" jsval string
  | DistinctValues "jsval list"

text \<open>\<open>convertToTdx(schema[key], value)\<close>; a key that is no column has the type \<open>undefined\<close>,
  which the converter's \<open>switch\<close> sends to its default, \<open>null\<close>.\<close>

definition columnToTdx :: "readEnv \<Rightarrow> (string \<times> string) list \<Rightarrow> string \<Rightarrow> jsval \<Rightarrow> error + jsval" where
  "columnToTdx env schema key v =
     (case map_of schema key of
        None \<Rightarrow> Inr JNull
      | Some ty \<Rightarrow> convertToTdx (jsonParse env) ty v)"

definition hasCompound :: "(string \<times> string) list \<Rightarrow> bool" where
  "hasCompound schema =
     (SQLITE_GENERAL_TYPE_NDARRAY \<in> snd ` set schema
      \<or> SQLITE_GENERAL_TYPE_OBJECT \<in> snd ` set schema
      \<or> SQLITE_GENERAL_TYPE_ARRAY \<in> snd ` set schema)"

text \<open>
  The part of \<open>getDataQuery\<close> after the rows are read. The result under construction is
  a list for a distinct query and the record of data and metadata otherwise, so its shape
  stands for the tests \<open>distinct === false\<close>.
\<close>

definition shapeRows :: "readEnv \<Rightarrow> (string \<times> string) list \<Rightarrow> string \<Rightarrow> queryResult
    \<Rightarrow> jsobject list \<Rightarrow> error + queryResult" where
  "shapeRows env schema distinctKey result rows =
     (case result of
        DistinctValues vs \<Rightarrow>
          (if hasCompound schema
           then bindE (mapE (\<lambda>row. columnToTdx env schema distinctKey (getProp row distinctKey)) rows)
                  (\<lambda>ws. Inr (DistinctValues (vs @ ws)))
           else Inr (DistinctValues (vs @ map (\<lambda>row. getProp row distinctKey) rows)))
      | DatasetData d metaData metaDataUrl \<Rightarrow>
          bindE (if hasCompound schema
                 then bindE (mapE (\<lambda>row. mapE (\<lambda>(key, v). bindE (columnToTdx env schema key v)
                                                        (\<lambda>w. Inr (key, w))) row) rows)
                        (\<lambda>converted. Inr (d @ converted))
                 else Inr rows) (\<lambda>d1.
          bindE (let ndarrayKeys = findCollectionKeys schema SQLITE_GENERAL_TYPE_NDARRAY
                 in if ndarrayKeys \<noteq> [] then readNdarrayMany env d1 ndarrayKeys else Inr d1) (\<lambda>d2.
            Inr (DatasetData d2 metaData metaDataUrl))))"

record queryOutcome =
  answer :: "error + queryResult"
  reads :: "(string \<times> jsval list) list"
  databaseAfterQuery :: database

text \<open>
  The query \<open>getDataQuery\<close> builds from its arguments and the general schema, before it is
  handed to the builder.
\<close>

definition buildSelectQuery :: "constants \<Rightarrow> (string \<times> string) list \<Rightarrow> bool \<Rightarrow> jsval \<Rightarrow> jsval
    \<Rightarrow> queryOptions \<Rightarrow> selectQuery" where
  "buildSelectQuery c schema isDistinct queryFilter projection options =
     (let skip = orElse (optSkip options) (JNum 0);
          sortQuery = sortQueryOf (optSort options)
      in \<lparr>sqDistinct = isDistinct, sqTable = DATABASE_DATA_TABLE_NAME c,
          sqWhere = orElse queryFilter (JObj []),
          sqLimit = selectLimit (SQLITE_QUERY_LIMIT c) (optLimit options),
          sqOffset = (if truthy skip then Some skip else None),
          sqOrder = (if sortQuery \<noteq> [] then Some sortQuery else None),
          sqColumns = resolvedColumns schema projection\<rparr>)"

definition getDataQuery :: "constants \<Rightarrow> readEnv \<Rightarrow> database \<Rightarrow> bool \<Rightarrow> jsval \<Rightarrow> jsval
    \<Rightarrow> queryOptions \<Rightarrow> queryOutcome" where
  "getDataQuery c env db isDistinct queryFilter projection options =
     (case getGeneralSchema c db of
        (Inl e, db1) \<Rightarrow> \<lparr>answer = Inl e, reads = [], databaseAfterQuery = db1\<rparr>
      | (Inr schema, db1) \<Rightarrow>
          (let selectQuery = buildSelectQuery c schema isDistinct queryFilter projection options;
               includedColumns = snd (projectionColumns schema projection);
               distinctKey = (case includedColumns of [] \<Rightarrow> [] | k # ks \<Rightarrow> k);
               done = (\<lambda>a. \<lparr>answer = a, reads = [], databaseAfterQuery = db1\<rparr>)
           in case builderSql env selectQuery of
                Inl e \<Rightarrow> done (Inl e)
              | Inr sqliteTranslation \<Rightarrow>
                  (case (if \<not> isDistinct
                         then (if truthy (optNqmMeta options)
                               then bindE (getResource env) (\<lambda>m. Inr (DatasetData [] m []))
                               else Inr (DatasetData [] (JObj []) []))
                         else Inr (DistinctValues [])) of
                     Inl e \<Rightarrow> done (Inl e)
                   | Inr result \<Rightarrow>
                       if builderColumns selectQuery = [''*''] then done (Inr result)
                       else if isDistinct \<and> length includedColumns \<noteq> 1 then done (Inr result)
                       else if map_of schema distinctKey = Some SQLITE_GENERAL_TYPE_NDARRAY
                               \<and> isDistinct then done (Inr result)
                       else
                         \<lparr>answer =
                            bindE (allAsync env (fst sqliteTranslation) (snd sqliteTranslation))
                              (shapeRows env schema distinctKey result),
                          reads = [sqliteTranslation],
                          databaseAfterQuery = db1\<rparr>)))"

text \<open>\<open>getData\<close> and \<open>getDistinct\<close>, the two public entries of the read path.\<close>

definition getData :: "constants \<Rightarrow> readEnv \<Rightarrow> database \<Rightarrow> jsval \<Rightarrow> jsval \<Rightarrow> queryOptions
    \<Rightarrow> queryOutcome" where
  "getData c env db queryFilter projection options =
     getDataQuery c env db False queryFilter projection options"


section \<open>Concrete inputs of the examples\<close>

text \<open>
  Values for the constants the sources do not give, used where a property is run on a
  concrete input: \<open>"INT"\<close> and \<open>"REAL"\<close> for the two derived-type patterns and 1000 for
  the cap (the documentation of \<open>getData\<close> speaks of a default limit of 1000), \<open>data\<close>
  and \<open>dataindex\<close> for the table and its index.
\<close>

definition demoConstants :: constants where
  "demoConstants = \<lparr>TDX_TYPE_INT = ''INT'',
     TDX_TYPE_REAL_test = (\<lambda>v. case v of JStr s \<Rightarrow> sublist ''REAL'' s | _ \<Rightarrow> False),
     SQLITE_QUERY_LIMIT = 1000,
     DATABASE_DATA_TABLE_NAME = ''data'',
     DATABASE_TABLE_INDEX_NAME = ''dataindex''\<rparr>"

text \<open>The options of a read that asks for a limit and nothing else.\<close>

definition limitOnly :: "int option \<Rightarrow> queryOptions" where
  "limitOnly l = \<lparr>optSkip = JUndefined, optLimit = l, optSort = JUndefined, optNqmMeta = JUndefined\<rparr>"

text \<open>
  \<open>JSON.stringify\<close> and \<open>JSON.parse\<close> on the empty array and the empty object, whose JSON
  texts are \<open>[]\<close> and \<open>{}\<close>; the examples use them on these two values only.
\<close>

definition demoStringify :: "jsval \<Rightarrow> string option" where
  "demoStringify v =
     (if v = JArr [] then Some ''[]'' else if v = JObj [] then Some ''{}'' else None)"

definition demoParse :: "jsval \<Rightarrow> error + jsval" where
  "demoParse v =
     (if v = JStr ''[]'' then Inr (JArr []) else if v = JStr ''{}'' then Inr (JObj [])
      else Inl SyntaxError)"

text \<open>
  Inputs of \<open>executeMany\<close>: a statement creator that throws on the column \<open>bad\<close>; the
  three rows of the spec's end-to-end scenario (two column sets); a batch whose creator
  throws at the second row and one whose creator throws at the first; two rows whose
  different key lists have the same joined text; an engine whose third command fails.
\<close>

definition demoCreator :: "string list \<Rightarrow> error + string" where
  "demoCreator dataRowKeys =
     (if ''bad'' \<in> set dataRowKeys then Inl (CreatorError ''no such column: bad'')
      else Inr (''INSERT INTO data ('' @ joinKeys dataRowKeys @ '')''))"

definition demoRows :: "jsobject list" where
  "demoRows =
     [[(''id'', JStr ''a''), (''count'', JNum 1)],
      [(''id'', JStr ''b''), (''count'', JNum 2)],
      [(''id'', JStr ''c''), (''count'', JNum 3), (''extra'', JBool True)]]"

definition demoBadRows :: "jsobject list" where
  "demoBadRows =
     [[(''id'', JStr ''a'')],
      [(''bad'', JNum 0)],
      [(''id'', JStr ''b'')]]"

definition demoCommaRows :: "jsobject list" where
  "demoCommaRows =
     [[(''a,b'', JNum 1)],
      [(''a'', JNum 1), (''b'', JNum 2)]]"

definition demoEngine :: "nat \<Rightarrow> string option" where
  "demoEngine i = (if i = 2 then Some ''SQLITE_CONSTRAINT'' else None)"

definition demoThrowRows :: "jsobject list" where
  "demoThrowRows =
     [[(''bad'', JNum 0)],
      [(''id'', JStr ''a'')]]"





definition emptyDb :: database where
  "emptyDb = \<lparr>infoTable = None, generalSchema = None, executed = []\<rparr>"

definition demoOptions :: jsobject where
  "demoOptions =
     [(''schema'', JObj
        [(''dataSchema'', JObj
            [(''id'', JObj [(''__tdxType'', JArr [JStr ''string''])]),
             (''count'', JObj [(''__tdxType'', JArr [JStr ''number'', JStr ''int''])])]),
         (''uniqueIndex'', JArr [JObj [(''asc'', JStr ''id'')]])])]"

definition demoOtherOptions :: jsobject where
  "demoOtherOptions =
     [(''schema'', JObj
        [(''dataSchema'', JObj
            [(''id'', JObj [(''__tdxType'', JArr [JStr ''string''])])]),
         (''uniqueIndex'', JArr [JObj [(''asc'', JStr ''id'')]])])]"

definition demoIndexOnlyOptions :: jsobject where
  "demoIndexOnlyOptions =
     [(''schema'', JObj [(''uniqueIndex'', JArr [JObj [(''asc'', JStr ''id'')]])])]"

definition demoDb :: database where
  "demoDb = snd (createDataset demoConstants (\<lambda>sql. None) ''id1'' emptyDb demoOptions)"





section \<open>Properties\<close>

subsection \<open>C6: the limit of a read\<close>

text \<open>
  C6 as stated fails: a negative requested limit is not clamped to the cap, the guard
  \<open>limit < 0\<close> passes it through to the query unchanged.
\<close>

theorem C6_negative_limit_counterexample:
  "sqLimit (buildSelectQuery demoConstants [] False JUndefined JUndefined (limitOnly (Some (- 5))))
     = - 5
   \<and> sqLimit (buildSelectQuery demoConstants [] False JUndefined JUndefined (limitOnly (Some (- 5))))
     \<noteq> SQLITE_QUERY_LIMIT demoConstants"
  by (simp add: buildSelectQuery_def selectLimit_def limitOnly_def demoConstants_def Let_def)

text \<open>
  C6, amended: with a positive cap, the limit of the query is the cap when no limit is
  requested, when the requested limit is zero and when it is above the cap; it is the
  requested limit when that lies within \<open>(0, cap]\<close>, and also when it is negative.
\<close>

theorem C6_limit_clamped:
  assumes "0 < SQLITE_QUERY_LIMIT c"
  shows "(optLimit options = None \<longrightarrow>
            sqLimit (buildSelectQuery c schema isDistinct queryFilter projection options)
              = SQLITE_QUERY_LIMIT c)
    \<and> (optLimit options = Some l \<and> (l = 0 \<or> SQLITE_QUERY_LIMIT c < l) \<longrightarrow>
            sqLimit (buildSelectQuery c schema isDistinct queryFilter projection options)
              = SQLITE_QUERY_LIMIT c)
    \<and> (optLimit options = Some l \<and> 0 < l \<and> l \<le> SQLITE_QUERY_LIMIT c \<longrightarrow>
            sqLimit (buildSelectQuery c schema isDistinct queryFilter projection options) = l)
    \<and> (optLimit options = Some l \<and> l < 0 \<longrightarrow>
            sqLimit (buildSelectQuery c schema isDistinct queryFilter projection options) = l)"
  using assms by (auto simp: buildSelectQuery_def selectLimit_def Let_def)

theorem C6_limit_clamped_witness:
  "sqLimit (buildSelectQuery demoConstants [] False JUndefined JUndefined (limitOnly None)) = 1000
   \<and> sqLimit (buildSelectQuery demoConstants [] False JUndefined JUndefined (limitOnly (Some 0)))
       = 1000
   \<and> sqLimit (buildSelectQuery demoConstants [] False JUndefined JUndefined (limitOnly (Some 1500)))
       = 1000
   \<and> sqLimit (buildSelectQuery demoConstants [] False JUndefined JUndefined (limitOnly (Some 10)))
       = 10
   \<and> sqLimit (buildSelectQuery demoConstants [] False JUndefined JUndefined (limitOnly (Some 1000)))
       = 1000
   \<and> sqLimit (buildSelectQuery demoConstants [] False JUndefined JUndefined (limitOnly (Some (- 1))))
       = - 1"
proof -
  have cap: "0 < SQLITE_QUERY_LIMIT demoConstants" by (simp add: demoConstants_def)
  have val: "SQLITE_QUERY_LIMIT demoConstants = 1000" by (simp add: demoConstants_def)
  show ?thesis
    using C6_limit_clamped[OF cap, where options = "limitOnly None"]
      C6_limit_clamped[OF cap, where options = "limitOnly (Some 0)" and l = 0]
      C6_limit_clamped[OF cap, where options = "limitOnly (Some 1500)" and l = 1500]
      C6_limit_clamped[OF cap, where options = "limitOnly (Some 10)" and l = 10]
      C6_limit_clamped[OF cap, where options = "limitOnly (Some 1000)" and l = 1000]
      C6_limit_clamped[OF cap, where options = "limitOnly (Some (- 1))" and l = "- 1"]
    by (simp add: val limitOnly_def)
qed

subsection \<open>Helper facts about the constants and the converter\<close>

lemmas const_defs = SQLITE_TYPE_TEXT_def SQLITE_TYPE_INTEGER_def SQLITE_TYPE_REAL_def
  SQLITE_TYPE_NUMERIC_def SQLITE_GENERAL_TYPE_OBJECT_def SQLITE_GENERAL_TYPE_ARRAY_def
  SQLITE_GENERAL_TYPE_NDARRAY_def TDX_TYPE_NAME_def TDX_TYPE_STRING_def TDX_TYPE_BOOLEAN_def
  TDX_TYPE_DATE_def TDX_TYPE_NUMBER_def

lemma tdxBaseType_array:
  "tdxBaseType (JArr (JStr b # ds)) = Inr (JStr (toLowerCase b))"
  by (simp add: tdxBaseType_def bindE_def orElse_def toLowerCase_def)

lemma tdxBaseType_array_total: "\<exists>base. tdxBaseType (JArr xs) = Inr base"
  by (simp add: tdxBaseType_def bindE_def)







text \<open>
  Outside the documented argument, an array of strings, \<open>getBasicType\<close> can throw: on a
  \<open>__tdxType\<close> that is \<open>null\<close> or \<open>undefined\<close> (the read \<open>tdxTypes[0]\<close>), and on the base
  type number with a derived type that is a number (it has no \<open>indexOf\<close>).
\<close>

lemma getBasicType_throws:
  "getBasicType c JNull = Inl TypeError"
  "getBasicType c JUndefined = Inl TypeError"
  "getBasicType c (JArr [JStr ''number'', JNum 5]) = Inl TypeError"
proof -
  show "getBasicType c JNull = Inl TypeError"
    by (simp add: getBasicType_def tdxBaseType_def bindE_def)
  show "getBasicType c JUndefined = Inl TypeError"
    by (simp add: getBasicType_def tdxBaseType_def bindE_def)
  have lo: "toLowerCase ''number'' = ''number''" by code_simp
  show "getBasicType c (JArr [JStr ''number'', JNum 5]) = Inl TypeError"
    by (simp add: getBasicType_def tdxBaseType_array tdxDerivedType_def bindE_def orElse_def lo
        const_defs)
qed



subsection \<open>C5: from a document type descriptor to a general type\<close>




subsection \<open>C4: encoding a value and decoding it again\<close>

text \<open>
  C4 as stated fails for the codec's own quoting: without \<open>onlyStringify\<close> the text
  \<open>a\<close> is encoded as \<open>"a"\<close>, quotes included, and \<open>convertToTdx\<close> returns a TEXT value
  as it is stored.
\<close>

theorem C4_quoted_text_counterexample:
  "roundTrip demoStringify demoParse SQLITE_TYPE_TEXT (JStr ''a'') False
     = Inr (JStr [CHR 0x22, CHR ''a'', CHR 0x22])
   \<and> roundTrip demoStringify demoParse SQLITE_TYPE_TEXT (JStr ''a'') False \<noteq> Inr (JStr ''a'')"
  by (simp add: roundTrip_def convertToSqlite_def convertToTdx_def bindE_def const_defs
      quoted_def doubleQuote_def)

text \<open>
  C4, amended: INTEGER, REAL and NUMERIC values come back unchanged under either
  encoding. With \<open>onlyStringify\<close> set (no quoting, no escaping) a TEXT value comes back
  unchanged, and so does an OBJECT or ARRAY value that \<open>JSON.stringify\<close> and \<open>JSON.parse\<close>
  take to a text and back. Under the quoting encoding a TEXT value \<open>s\<close> comes back as
  the quoted text, not as \<open>s\<close>.
\<close>

theorem C4_round_trip:
  "(ty = SQLITE_TYPE_NUMERIC \<or> ty = SQLITE_TYPE_INTEGER \<or> ty = SQLITE_TYPE_REAL \<longrightarrow>
      roundTrip stringify parse ty v onlyStringify = Inr v)
   \<and> roundTrip stringify parse SQLITE_TYPE_TEXT v True = Inr v
   \<and> ((ty = SQLITE_GENERAL_TYPE_OBJECT \<or> ty = SQLITE_GENERAL_TYPE_ARRAY)
        \<and> stringify v = Some s \<and> parse (JStr s) = Inr v \<longrightarrow>
      roundTrip stringify parse ty v True = Inr v)
   \<and> roundTrip stringify parse SQLITE_TYPE_TEXT (JStr s') False = Inr (JStr (quoted s'))"
  by (auto simp: roundTrip_def convertToSqlite_def convertToTdx_def bindE_def const_defs)

theorem C4_round_trip_witness:
  "roundTrip demoStringify demoParse SQLITE_TYPE_INTEGER (JNum 7) False = Inr (JNum 7)
   \<and> roundTrip demoStringify demoParse SQLITE_TYPE_TEXT (JStr ''a'') True = Inr (JStr ''a'')
   \<and> roundTrip demoStringify demoParse SQLITE_GENERAL_TYPE_ARRAY (JArr []) True = Inr (JArr [])
   \<and> roundTrip demoStringify demoParse SQLITE_GENERAL_TYPE_OBJECT (JObj []) True = Inr (JObj [])"
  using C4_round_trip[where ty = SQLITE_TYPE_INTEGER and stringify = demoStringify
        and parse = demoParse and v = "JNum 7" and onlyStringify = False]
    C4_round_trip[where stringify = demoStringify and parse = demoParse and v = "JStr ''a''"]
    C4_round_trip[where ty = SQLITE_GENERAL_TYPE_ARRAY and stringify = demoStringify
        and parse = demoParse and v = "JArr []" and s = "''[]''"]
    C4_round_trip[where ty = SQLITE_GENERAL_TYPE_OBJECT and stringify = demoStringify
        and parse = demoParse and v = "JObj []" and s = "''{}''"]
  by (simp add: demoStringify_def demoParse_def const_defs)

subsection \<open>Helper facts about the row loop of executeMany\<close>

lemma rowLoop_cache_ext:
  "\<exists>ext. cachedStatements (rowLoop c cache rows) = cache @ ext"
proof (induction rows arbitrary: cache)
  case Nil
  then show ?case by simp
next
  case (Cons row rows)
  show ?case
  proof (cases "map_of cache (joinKeys (objectKeys row))")
    case (Some st)
    with Cons.IH[of cache] show ?thesis by (simp add: Let_def)
  next
    case None
    show ?thesis
    proof (cases "c (objectKeys row)")
      case (Inl e)
      with None show ?thesis by (simp add: Let_def)
    next
      case (Inr sql)
      from Cons.IH[of "cache @ [(joinKeys (objectKeys row), length cache)]"]
      obtain ext where "cachedStatements
          (rowLoop c (cache @ [(joinKeys (objectKeys row), length cache)]) rows)
          = (cache @ [(joinKeys (objectKeys row), length cache)]) @ ext" by blast
      with None Inr show ?thesis by (simp add: Let_def)
    qed
  qed
qed

lemma rowLoop_cache_length: "length cache \<le> length (cachedStatements (rowLoop c cache rows))"
  using rowLoop_cache_ext[of c cache rows] by auto

lemma rowLoop_cache_handles:
  "map snd cache = [0..<length cache] \<Longrightarrow>
   map snd (cachedStatements (rowLoop c cache rows))
     = [0..<length (cachedStatements (rowLoop c cache rows))]"
proof (induction rows arbitrary: cache)
  case Nil
  then show ?case by simp
next
  case (Cons row rows)
  show ?case
  proof (cases "map_of cache (joinKeys (objectKeys row))")
    case (Some st)
    with Cons.IH[OF Cons.prems] show ?thesis by (simp add: Let_def)
  next
    case None
    show ?thesis
    proof (cases "c (objectKeys row)")
      case (Inl e)
      with None Cons.prems show ?thesis by (simp add: Let_def)
    next
      case (Inr sql)
      have "map snd (cache @ [(joinKeys (objectKeys row), length cache)])
          = [0..<length (cache @ [(joinKeys (objectKeys row), length cache)])]"
        using Cons.prems by simp
      from Cons.IH[OF this] None Inr show ?thesis by (simp add: Let_def)
    qed
  qed
qed

lemma rowLoop_cache_distinct:
  "distinct (map fst cache) \<Longrightarrow> distinct (map fst (cachedStatements (rowLoop c cache rows)))"
proof (induction rows arbitrary: cache)
  case Nil
  then show ?case by simp
next
  case (Cons row rows)
  show ?case
  proof (cases "map_of cache (joinKeys (objectKeys row))")
    case (Some st)
    with Cons.IH[OF Cons.prems] show ?thesis by (simp add: Let_def)
  next
    case None
    show ?thesis
    proof (cases "c (objectKeys row)")
      case (Inl e)
      with None Cons.prems show ?thesis by (simp add: Let_def)
    next
      case (Inr sql)
      from None have "joinKeys (objectKeys row) \<notin> fst ` set cache"
        by (simp add: map_of_eq_None_iff)
      then have "distinct (map fst (cache @ [(joinKeys (objectKeys row), length cache)]))"
        using Cons.prems by simp
      from Cons.IH[OF this] None Inr show ?thesis by (simp add: Let_def)
    qed
  qed
qed

lemma map_of_append_Some: "map_of xs k = Some v \<Longrightarrow> map_of (xs @ ys) k = Some v"
  by (simp add: map_add_Some_iff)

lemma rowLoop_runs:
  "runsOf (loopCommands (rowLoop c cache rows))
     = map (\<lambda>row. (the (map_of (cachedStatements (rowLoop c cache rows))
                             (joinKeys (objectKeys row))), objectValues row))
         (take (length (runsOf (loopCommands (rowLoop c cache rows)))) rows)"
proof (induction rows arbitrary: cache)
  case Nil
  then show ?case by simp
next
  case (Cons row rows)
  let ?k = "joinKeys (objectKeys row)"
  show ?case
  proof (cases "map_of cache ?k")
    case (Some st)
    obtain ext where ext: "cachedStatements (rowLoop c cache rows) = cache @ ext"
      using rowLoop_cache_ext by blast
    have "map_of (cachedStatements (rowLoop c cache rows)) ?k = Some st"
      using Some ext by (simp add: map_of_append_Some)
    with Some Cons.IH[of cache] show ?thesis by (simp add: Let_def)
  next
    case None
    show ?thesis
    proof (cases "c (objectKeys row)")
      case (Inl e)
      with None show ?thesis by (simp add: Let_def)
    next
      case (Inr sql)
      let ?cache = "cache @ [(?k, length cache)]"
      obtain ext where ext: "cachedStatements (rowLoop c ?cache rows) = ?cache @ ext"
        using rowLoop_cache_ext by blast
      have "map_of ?cache ?k = Some (length cache)"
        using None by (simp add: map_add_def)
      then have "map_of (cachedStatements (rowLoop c ?cache rows)) ?k = Some (length cache)"
        using ext by (simp only: map_of_append_Some)
      with None Inr Cons.IH[of ?cache] show ?thesis by (simp add: Let_def)
    qed
  qed
qed

lemma rowLoop_runs_le: "length (runsOf (loopCommands (rowLoop c cache rows))) \<le> length rows"
proof (induction rows arbitrary: cache)
  case Nil
  then show ?case by simp
next
  case (Cons row rows)
  show ?case
    using Cons.IH[of cache] Cons.IH[of "cache @ [(joinKeys (objectKeys row), length cache)]"]
    by (auto simp: Let_def split: option.splits sum.splits)
qed

lemma rowLoop_runs_all:
  "thrown (rowLoop c cache rows) = None \<Longrightarrow>
   length (runsOf (loopCommands (rowLoop c cache rows))) = length rows"
proof (induction rows arbitrary: cache)
  case Nil
  then show ?case by simp
next
  case (Cons row rows)
  show ?case
    using Cons.prems Cons.IH[of cache]
      Cons.IH[of "cache @ [(joinKeys (objectKeys row), length cache)]"]
    by (auto simp: Let_def split: option.splits sum.splits)
qed

lemma rowLoop_no_throw:
  "\<forall>row \<in> set rows. \<exists>sql. c (objectKeys row) = Inr sql \<Longrightarrow>
   thrown (rowLoop c cache rows) = None"
proof (induction rows arbitrary: cache)
  case Nil
  then show ?case by simp
next
  case (Cons row rows)
  then obtain sql where "c (objectKeys row) = Inr sql" by auto
  with Cons show ?case
    by (auto simp: Let_def split: option.splits)
qed

lemma rowLoop_prepares:
  "map fst (preparesOf (loopCommands (rowLoop c cache rows)))
     = [length cache..<length (cachedStatements (rowLoop c cache rows))]"
proof (induction rows arbitrary: cache)
  case Nil
  then show ?case by simp
next
  case (Cons row rows)
  let ?k = "joinKeys (objectKeys row)"
  show ?case
  proof (cases "map_of cache ?k")
    case (Some st)
    with Cons.IH[of cache] show ?thesis by (simp add: Let_def)
  next
    case None
    show ?thesis
    proof (cases "c (objectKeys row)")
      case (Inl e)
      with None show ?thesis by (simp add: Let_def)
    next
      case (Inr sql)
      let ?cache = "cache @ [(?k, length cache)]"
      have "length ?cache \<le> length (cachedStatements (rowLoop c ?cache rows))"
        by (rule rowLoop_cache_length)
      then have lt: "length cache < length (cachedStatements (rowLoop c ?cache rows))"
        by simp
      from Cons.IH[of ?cache] None Inr lt show ?thesis
        by (simp add: Let_def upt_conv_Cons)
    qed
  qed
qed

lemma rowLoop_calls:
  "thrown (rowLoop c cache rows) = None \<Longrightarrow>
   map joinKeys (creatorCalls (rowLoop c cache rows))
     = map fst (drop (length cache) (cachedStatements (rowLoop c cache rows)))"
proof (induction rows arbitrary: cache)
  case Nil
  then show ?case by simp
next
  case (Cons row rows)
  let ?k = "joinKeys (objectKeys row)"
  show ?case
  proof (cases "map_of cache ?k")
    case (Some st)
    with Cons.IH[of cache] Cons.prems show ?thesis by (simp add: Let_def)
  next
    case None
    show ?thesis
    proof (cases "c (objectKeys row)")
      case (Inl e)
      with None Cons.prems show ?thesis by (simp add: Let_def)
    next
      case (Inr sql)
      let ?cache = "cache @ [(?k, length cache)]"
      obtain ext where ext: "cachedStatements (rowLoop c ?cache rows) = ?cache @ ext"
        using rowLoop_cache_ext by blast
      from Cons.prems None Inr have "thrown (rowLoop c ?cache rows) = None"
        by (simp add: Let_def)
      from Cons.IH[OF this] None Inr ext show ?thesis
        by (simp add: Let_def)
    qed
  qed
qed

lemma rowLoop_cache_keys:
  "thrown (rowLoop c cache rows) = None \<Longrightarrow>
   fst ` set (cachedStatements (rowLoop c cache rows))
     = fst ` set cache \<union> (\<lambda>row. joinKeys (objectKeys row)) ` set rows"
proof (induction rows arbitrary: cache)
  case Nil
  then show ?case by simp
next
  case (Cons row rows)
  let ?k = "joinKeys (objectKeys row)"
  show ?case
  proof (cases "map_of cache ?k")
    case (Some st)
    then have "?k \<in> fst ` set cache"
      by (metis map_of_eq_None_iff option.distinct(1))
    with Some Cons.IH[of cache] Cons.prems show ?thesis by (auto simp: Let_def)
  next
    case None
    show ?thesis
    proof (cases "c (objectKeys row)")
      case (Inl e)
      with None Cons.prems show ?thesis by (simp add: Let_def)
    next
      case (Inr sql)
      let ?cache = "cache @ [(?k, length cache)]"
      from Cons.prems None Inr have "thrown (rowLoop c ?cache rows) = None"
        by (simp add: Let_def)
      from Cons.IH[OF this] None Inr show ?thesis
        by (simp add: Let_def)
    qed
  qed
qed

lemma rowLoop_calls_subset:
  "set (creatorCalls (rowLoop c cache rows)) \<subseteq> objectKeys ` set rows"
proof (induction rows arbitrary: cache)
  case Nil
  then show ?case by simp
next
  case (Cons row rows)
  show ?case
    using Cons.IH[of cache] Cons.IH[of "cache @ [(joinKeys (objectKeys row), length cache)]"]
    by (auto simp: Let_def split: option.splits sum.splits)
qed

lemma rowLoop_commands_statements:
  "cmd \<in> set (loopCommands (rowLoop c cache rows)) \<Longrightarrow> isStatementCommand cmd"
proof (induction rows arbitrary: cache)
  case Nil
  then show ?case by simp
next
  case (Cons row rows)
  show ?case
    using Cons.prems Cons.IH[of cache]
      Cons.IH[of "cache @ [(joinKeys (objectKeys row), length cache)]"]
    by (auto simp: Let_def split: option.splits sum.splits)
qed


lemma rowLoop_run_handles:
  "map snd cache = [0..<length cache] \<Longrightarrow>
   (st, vs) \<in> set (runsOf (loopCommands (rowLoop c cache rows))) \<Longrightarrow>
   st < length (cachedStatements (rowLoop c cache rows))"
proof (induction rows arbitrary: cache)
  case Nil
  then show ?case by simp
next
  case (Cons row rows)
  let ?k = "joinKeys (objectKeys row)"
  show ?case
  proof (cases "map_of cache ?k")
    case (Some h)
    then have "(?k, h) \<in> set cache" by (rule map_of_SomeD)
    then have "h \<in> set (map snd cache)" by force
    then have "h < length cache" using Cons.prems(1) by simp
    then have h: "h < length (cachedStatements (rowLoop c cache rows))"
      using rowLoop_cache_length[of cache c rows] by simp
    from Cons.prems(2) Some have "(st, vs) = (h, objectValues row)
        \<or> (st, vs) \<in> set (runsOf (loopCommands (rowLoop c cache rows)))"
      by (simp add: Let_def)
    with h Cons.IH[OF Cons.prems(1)] Some show ?thesis
      by (auto simp: Let_def)
  next
    case None
    show ?thesis
    proof (cases "c (objectKeys row)")
      case (Inl e)
      with None Cons.prems show ?thesis by (simp add: Let_def)
    next
      case (Inr sql)
      let ?cache = "cache @ [(?k, length cache)]"
      have inv: "map snd ?cache = [0..<length ?cache]" using Cons.prems(1) by simp
      have "length ?cache \<le> length (cachedStatements (rowLoop c ?cache rows))"
        by (rule rowLoop_cache_length)
      then have lt: "length cache < length (cachedStatements (rowLoop c ?cache rows))"
        by simp
      from Cons.prems(2) None Inr have "(st, vs) = (length cache, objectValues row)
        \<or> (st, vs) \<in> set (runsOf (loopCommands (rowLoop c ?cache rows)))"
        by (simp add: Let_def)
      with lt Cons.IH[OF inv] None Inr show ?thesis
        by (auto simp: Let_def)
    qed
  qed
qed

lemma runsOf_append: "runsOf (xs @ ys) = runsOf xs @ runsOf ys"
  by (induction xs rule: runsOf.induct) auto

lemma preparesOf_append: "preparesOf (xs @ ys) = preparesOf xs @ preparesOf ys"
  by (induction xs rule: preparesOf.induct) auto

lemma runsOf_finalizes: "runsOf (map (\<lambda>(k, st). Finalize st) cache) = []"
  by (induction cache) auto

lemma preparesOf_finalizes: "preparesOf (map (\<lambda>(k, st). Finalize st) cache) = []"
  by (induction cache) auto

lemma finalizes_map: "map (\<lambda>(k, st). Finalize st) cache = map Finalize (map snd cache)"
  by (induction cache) auto

lemma count_list_upt: "count_list [a..<b] (x::nat) = (if a \<le> x \<and> x < b then 1 else 0)"
  by (induction b) auto

lemma count_list_Finalize: "count_list (map Finalize xs) (Finalize st) = count_list xs st"
  by (induction xs) auto

lemma count_list_statements:
  "\<forall>cmd \<in> set cmds. isStatementCommand cmd \<Longrightarrow> \<not> isStatementCommand x \<Longrightarrow> count_list cmds x = 0"
  by (induction cmds) auto

lemma issued_executeMany:
  "issued (executeMany engine c data)
     = BeginTransaction # loopCommands (rowLoop c [] data)
         @ CommitTransaction # map Finalize [0..<length (cachedStatements (rowLoop c [] data))]"
proof -
  have "map snd (cachedStatements (rowLoop c [] data))
      = [0..<length (cachedStatements (rowLoop c [] data))]"
    using rowLoop_cache_handles[of "[]" c data] by simp
  then have "map (\<lambda>(k, st). Finalize st) (cachedStatements (rowLoop c [] data))
      = map Finalize [0..<length (cachedStatements (rowLoop c [] data))]"
    by (simp only: finalizes_map)
  then show ?thesis
    by (simp add: executeMany_def Let_def)
qed

lemma runsOf_executeMany:
  "runsOf (issued (executeMany engine c data)) = runsOf (loopCommands (rowLoop c [] data))"
  by (simp add: executeMany_def Let_def runsOf_append runsOf_finalizes)

lemma preparesOf_executeMany:
  "preparesOf (issued (executeMany engine c data)) = preparesOf (loopCommands (rowLoop c [] data))"
  by (simp add: executeMany_def Let_def preparesOf_append preparesOf_finalizes)

lemma callbackErrors_append:
  "callbackErrors engine n (xs @ ys)
     = callbackErrors engine n xs @ callbackErrors engine (n + length xs) ys"
  by (induction xs arbitrary: n) auto

lemma callbackErrors_nonempty:
  "i < length cmds \<Longrightarrow> isStatementCommand (cmds ! i) \<Longrightarrow> engine (n + i) = Some msg \<Longrightarrow>
   callbackErrors engine n cmds \<noteq> []"
proof (induction cmds arbitrary: n i)
  case Nil
  then show ?case by simp
next
  case (Cons cmd cmds)
  show ?case
  proof (cases i)
    case 0
    with Cons.prems show ?thesis by (cases cmd) auto
  next
    case (Suc k)
    with Cons.prems Cons.IH[of k "Suc n"] show ?thesis by auto
  qed
qed

subsection \<open>C1: one transaction, one commit\<close>

text \<open>
  C1. Whatever the rows, the statement creator and the engine do, the commands submitted
  hold exactly one \<open>BEGIN TRANSACTION\<close> and exactly one \<open>COMMIT TRANSACTION\<close>: the
  begin comes first, then the prepares and runs of the loop, then the commit, then only
  finalizes, so every row run before an error is committed and nothing undoes it. When
  the creator throws, the call is rejected with what it threw; otherwise it is rejected
  with the first error a callback reports; and an error of any prepare or run means the
  call does not resolve.
\<close>

theorem C1_one_begin_one_commit:
  "count_list (issued (executeMany engine creator data)) BeginTransaction = 1
   \<and> count_list (issued (executeMany engine creator data)) CommitTransaction = 1
   \<and> (\<exists>pre fins. issued (executeMany engine creator data)
           = BeginTransaction # pre @ CommitTransaction # fins
         \<and> runsOf pre = runsOf (issued (executeMany engine creator data))
         \<and> (\<forall>cmd \<in> set pre. isStatementCommand cmd)
         \<and> (\<forall>cmd \<in> set fins. \<exists>st. cmd = Finalize st))
   \<and> (thrown (rowLoop creator [] data) = Some e \<longrightarrow>
         settled (executeMany engine creator data) = Rejected e)
   \<and> (thrown (rowLoop creator [] data) = None
        \<and> callbackErrors engine 0 (issued (executeMany engine creator data)) = e' # es \<longrightarrow>
         settled (executeMany engine creator data) = Rejected e')
   \<and> (i < length (issued (executeMany engine creator data))
        \<and> isStatementCommand (issued (executeMany engine creator data) ! i)
        \<and> engine i = Some msg \<longrightarrow>
         settled (executeMany engine creator data) \<noteq> Resolved)"
proof -
  let ?r = "rowLoop creator [] data"
  let ?res = "executeMany engine creator data"
  let ?fins = "map Finalize [0..<length (cachedStatements ?r)]"
  have log: "issued ?res = BeginTransaction # loopCommands ?r @ CommitTransaction # ?fins"
    by (rule issued_executeMany)
  have stm: "\<forall>cmd \<in> set (loopCommands ?r). isStatementCommand cmd"
    using rowLoop_commands_statements by blast
  have fin: "\<forall>cmd \<in> set ?fins. \<exists>st. cmd = Finalize st" by auto
  have cb: "count_list (loopCommands ?r) BeginTransaction = 0"
    using count_list_statements[OF stm] by simp
  have cc: "count_list (loopCommands ?r) CommitTransaction = 0"
    using count_list_statements[OF stm] by simp
  have fb: "count_list ?fins BeginTransaction = 0" by (simp add: count_list_0_iff image_iff)
  have fc: "count_list ?fins CommitTransaction = 0" by (simp add: count_list_0_iff image_iff)
  have c1: "count_list (issued ?res) BeginTransaction = 1"
    using cb fb by (simp add: log)
  have c2: "count_list (issued ?res) CommitTransaction = 1"
    using cc fc by (simp add: log)
  have shape: "\<exists>pre fins. issued ?res = BeginTransaction # pre @ CommitTransaction # fins
         \<and> runsOf pre = runsOf (issued ?res)
         \<and> (\<forall>cmd \<in> set pre. isStatementCommand cmd)
         \<and> (\<forall>cmd \<in> set fins. \<exists>st. cmd = Finalize st)"
  proof (intro exI conjI)
    show "issued ?res = BeginTransaction # loopCommands ?r @ CommitTransaction # ?fins"
      by (rule log)
    show "runsOf (loopCommands ?r) = runsOf (issued ?res)"
      by (simp add: runsOf_executeMany)
    show "\<forall>cmd \<in> set (loopCommands ?r). isStatementCommand cmd" by (rule stm)
    show "\<forall>cmd \<in> set ?fins. \<exists>st. cmd = Finalize st" by (rule fin)
  qed
  have thr: "thrown ?r = Some e \<longrightarrow> settled ?res = Rejected e"
    by (simp add: executeMany_def Let_def)
  have first: "thrown ?r = None \<and> callbackErrors engine 0 (issued ?res) = e' # es \<longrightarrow>
         settled ?res = Rejected e'"
    by (auto simp: executeMany_def Let_def)
  have any: "i < length (issued ?res) \<and> isStatementCommand (issued ?res ! i)
        \<and> engine i = Some msg \<longrightarrow> settled ?res \<noteq> Resolved"
  proof
    assume a: "i < length (issued ?res) \<and> isStatementCommand (issued ?res ! i)
        \<and> engine i = Some msg"
    then have ne: "callbackErrors engine 0 (issued ?res) \<noteq> []"
      using callbackErrors_nonempty[of i "issued ?res" engine 0 msg] by simp
    show "settled ?res \<noteq> Resolved"
    proof (cases "thrown ?r")
      case None
      with ne show ?thesis
        by (auto simp: executeMany_def Let_def split: list.splits)
    next
      case (Some err)
      then show ?thesis by (simp add: executeMany_def Let_def)
    qed
  qed
  from c1 c2 shape thr first any show ?thesis by blast
qed


theorem C1_one_begin_one_commit_witness:
  "count_list (issued (executeMany demoEngine demoCreator demoBadRows)) BeginTransaction = 1
   \<and> count_list (issued (executeMany demoEngine demoCreator demoBadRows)) CommitTransaction = 1
   \<and> settled (executeMany demoEngine demoCreator demoBadRows)
        = Rejected (CreatorError ''no such column: bad'')
   \<and> runsOf (issued (executeMany demoEngine demoCreator demoBadRows)) = [(0, [JStr ''a''])]
   \<and> settled (executeMany demoEngine demoCreator demoRows)
        = Rejected (StatementError ''SQLITE_CONSTRAINT'')"
proof -
  have t: "thrown (rowLoop demoCreator [] demoBadRows) = Some (CreatorError ''no such column: bad'')"
    by code_simp
  have n: "thrown (rowLoop demoCreator [] demoRows) = None"
    by code_simp
  have cb: "callbackErrors demoEngine 0 (issued (executeMany demoEngine demoCreator demoRows))
      = [StatementError ''SQLITE_CONSTRAINT'']"
    by code_simp
  have runs: "runsOf (issued (executeMany demoEngine demoCreator demoBadRows)) = [(0, [JStr ''a''])]"
    by code_simp
  show ?thesis
    using C1_one_begin_one_commit[of demoEngine demoCreator demoBadRows
        "CreatorError ''no such column: bad''"]
      C1_one_begin_one_commit[of demoEngine demoCreator demoRows _
        "StatementError ''SQLITE_CONSTRAINT''" "[]"]
      t n cb runs
    by simp
qed

subsection \<open>C2: one compiled statement per column set\<close>

text \<open>
  C2 as stated fails when the statement creator throws: the loop stops there. The two
  rows below have two distinct key lists; the creator is called once, on the first, and
  no statement is prepared.
\<close>

theorem C2_throwing_creator_counterexample:
  "card (objectKeys ` set demoThrowRows) = 2
   \<and> compiled (executeMany (\<lambda>i. None) demoCreator demoThrowRows) = [[''bad'']]
   \<and> preparesOf (issued (executeMany (\<lambda>i. None) demoCreator demoThrowRows)) = []"
proof -
  have "objectKeys ` set demoThrowRows = {[''bad''], [''id'']}"
    by (simp add: demoThrowRows_def objectKeys_def)
  then have "card (objectKeys ` set demoThrowRows) = 2" by simp
  moreover have "compiled (executeMany (\<lambda>i. None) demoCreator demoThrowRows) = [[''bad'']]"
    by code_simp
  moreover have "preparesOf (issued (executeMany (\<lambda>i. None) demoCreator demoThrowRows)) = []"
    by code_simp
  ultimately show ?thesis by simp
qed

text \<open>
  The cache is keyed by the comma-joined text of the key list, so two different key lists
  with the same joined text share one statement: the rows \<open>{"a,b": 1}\<close> and
  \<open>{a: 1, b: 2}\<close> are both run on the statement compiled for the first.
\<close>

lemma executeMany_joined_key_collision:
  "card (objectKeys ` set demoCommaRows) = 2
   \<and> compiled (executeMany (\<lambda>i. None) demoCreator demoCommaRows) = [[''a,b'']]
   \<and> map fst (runsOf (issued (executeMany (\<lambda>i. None) demoCreator demoCommaRows))) = [0, 0]"
proof -
  have "objectKeys ` set demoCommaRows = {[''a,b''], [''a'', ''b'']}"
    by (simp add: demoCommaRows_def objectKeys_def)
  then have "card (objectKeys ` set demoCommaRows) = 2" by simp
  moreover have "compiled (executeMany (\<lambda>i. None) demoCreator demoCommaRows) = [[''a,b'']]"
    by code_simp
  moreover have "map fst (runsOf (issued (executeMany (\<lambda>i. None) demoCreator demoCommaRows))) = [0, 0]"
    by code_simp
  ultimately show ?thesis by simp
qed

text \<open>
  C2, amended: when the creator throws on no row and the key lists of the batch have
  pairwise different joined texts, the creator is called exactly once for each of the
  \<open>K\<close> distinct key lists, \<open>K\<close> statements are prepared, and each of them is finalized
  exactly once, after the commit.
\<close>

theorem C2_compiled_once_per_key:
  assumes "\<forall>row \<in> set data. \<exists>sql. creator (objectKeys row) = Inr sql"
    and "inj_on joinKeys (objectKeys ` set data)"
  shows "length (compiled (executeMany engine creator data)) = card (objectKeys ` set data)
    \<and> distinct (compiled (executeMany engine creator data))
    \<and> set (compiled (executeMany engine creator data)) = objectKeys ` set data
    \<and> map fst (preparesOf (issued (executeMany engine creator data)))
         = [0..<card (objectKeys ` set data)]
    \<and> (\<forall>st. count_list (issued (executeMany engine creator data)) (Finalize st)
         = (if st < card (objectKeys ` set data) then 1 else 0))
    \<and> (\<exists>pre. issued (executeMany engine creator data)
           = BeginTransaction # pre
               @ CommitTransaction # map Finalize [0..<card (objectKeys ` set data)]
         \<and> (\<forall>cmd \<in> set pre. isStatementCommand cmd))"
proof -
  let ?r = "rowLoop creator [] data"
  let ?res = "executeMany engine creator data"
  let ?cache = "cachedStatements ?r"
  let ?K = "card (objectKeys ` set data)"
  have nothrow: "thrown ?r = None"
    using assms(1) by (rule rowLoop_no_throw)
  have dist: "distinct (map fst ?cache)"
    using rowLoop_cache_distinct[of "[]" creator data] by simp
  have calls: "map joinKeys (creatorCalls ?r) = map fst ?cache"
    using rowLoop_calls[OF nothrow] by simp
  have keys: "fst ` set ?cache = joinKeys ` objectKeys ` set data"
    using rowLoop_cache_keys[OF nothrow] by (simp add: image_image)
  have "length ?cache = card (set (map fst ?cache))"
    using distinct_card[OF dist] by simp
  also have "\<dots> = card (joinKeys ` objectKeys ` set data)"
    using keys by simp
  also have "\<dots> = ?K"
    using assms(2) by (rule card_image)
  finally have len: "length ?cache = ?K" .
  have comp: "compiled ?res = creatorCalls ?r"
    by (simp add: executeMany_def Let_def)
  have l1: "length (compiled ?res) = ?K"
    using calls len comp by (metis length_map)
  have d1: "distinct (compiled ?res)"
    using calls dist comp by (metis distinct_map)
  have sub: "set (compiled ?res) \<subseteq> objectKeys ` set data"
    using rowLoop_calls_subset comp by metis
  have "card (set (compiled ?res)) = ?K"
    using d1 l1 by (simp add: distinct_card)
  then have s1: "set (compiled ?res) = objectKeys ` set data"
    using sub by (simp add: card_subset_eq)
  have log: "issued ?res = BeginTransaction # loopCommands ?r
               @ CommitTransaction # map Finalize [0..<?K]"
    using issued_executeMany[of engine creator data] len by simp
  have p1: "map fst (preparesOf (issued ?res)) = [0..<?K]"
    using rowLoop_prepares[of creator "[]" data] len
    by (simp add: preparesOf_executeMany)
  have stm: "\<forall>cmd \<in> set (loopCommands ?r). isStatementCommand cmd"
    using rowLoop_commands_statements by blast
  have f1: "\<forall>st. count_list (issued ?res) (Finalize st) = (if st < ?K then 1 else 0)"
  proof
    fix st
    have "count_list (loopCommands ?r) (Finalize st) = 0"
      using count_list_statements[OF stm] by simp
    then show "count_list (issued ?res) (Finalize st) = (if st < ?K then 1 else 0)"
      by (simp add: log count_list_Finalize count_list_upt)
  qed
  have shape: "\<exists>pre. issued ?res
           = BeginTransaction # pre @ CommitTransaction # map Finalize [0..<?K]
         \<and> (\<forall>cmd \<in> set pre. isStatementCommand cmd)"
    using log stm by blast
  from l1 d1 s1 p1 f1 shape show ?thesis by blast
qed

theorem C2_compiled_once_per_key_witness:
  "length (compiled (executeMany demoEngine demoCreator demoRows)) = 2
   \<and> map fst (preparesOf (issued (executeMany demoEngine demoCreator demoRows))) = [0, 1]
   \<and> count_list (issued (executeMany demoEngine demoCreator demoRows)) (Finalize 0) = 1
   \<and> count_list (issued (executeMany demoEngine demoCreator demoRows)) (Finalize 1) = 1
   \<and> count_list (issued (executeMany demoEngine demoCreator demoRows)) (Finalize 2) = 0"
proof -
  have keys: "objectKeys ` set demoRows = {[''id'', ''count''], [''id'', ''count'', ''extra'']}"
    by (auto simp: demoRows_def objectKeys_def)
  have h1: "\<forall>row \<in> set demoRows. \<exists>sql. demoCreator (objectKeys row) = Inr sql"
    by (simp add: demoRows_def objectKeys_def demoCreator_def)
  have h2: "inj_on joinKeys (objectKeys ` set demoRows)"
    by (simp add: keys)
  have k: "card (objectKeys ` set demoRows) = 2"
    by (simp add: keys)
  have upt: "[0..<2] = [0, Suc 0]" by (simp add: upt_conv_Cons)
  show ?thesis
    using C2_compiled_once_per_key[OF h1 h2, of demoEngine]
    by (simp add: k upt)
qed

subsection \<open>C3: rows with the same column set share a statement\<close>

lemma rowLoop_prepared_from:
  "(st, sql) \<in> set (preparesOf (loopCommands (rowLoop c cache rows))) \<Longrightarrow>
   \<exists>row \<in> set rows. c (objectKeys row) = Inr sql
      \<and> map_of (cachedStatements (rowLoop c cache rows)) (joinKeys (objectKeys row)) = Some st"
proof (induction rows arbitrary: cache)
  case Nil
  then show ?case by simp
next
  case (Cons row rows)
  let ?k = "joinKeys (objectKeys row)"
  show ?case
  proof (cases "map_of cache ?k")
    case (Some h)
    with Cons.prems have "(st, sql) \<in> set (preparesOf (loopCommands (rowLoop c cache rows)))"
      by (simp add: Let_def)
    from Cons.IH[OF this] Some show ?thesis by (auto simp: Let_def)
  next
    case None
    show ?thesis
    proof (cases "c (objectKeys row)")
      case (Inl e)
      with None Cons.prems show ?thesis by (simp add: Let_def)
    next
      case (Inr stmt)
      let ?cache = "cache @ [(?k, length cache)]"
      obtain ext where ext: "cachedStatements (rowLoop c ?cache rows) = ?cache @ ext"
        using rowLoop_cache_ext by blast
      from Cons.prems None Inr have "(st, sql) = (length cache, stmt)
          \<or> (st, sql) \<in> set (preparesOf (loopCommands (rowLoop c ?cache rows)))"
        by (simp add: Let_def)
      then show ?thesis
      proof
        assume eq: "(st, sql) = (length cache, stmt)"
        have "map_of ?cache ?k = Some (length cache)"
          using None by (simp add: map_add_def)
        then have "map_of (cachedStatements (rowLoop c ?cache rows)) ?k = Some (length cache)"
          using ext by (simp only: map_of_append_Some)
        with eq None Inr show ?thesis by (simp add: Let_def)
      next
        assume "(st, sql) \<in> set (preparesOf (loopCommands (rowLoop c ?cache rows)))"
        from Cons.IH[OF this] None Inr show ?thesis by (auto simp: Let_def)
      qed
    qed
  qed
qed

lemma rowLoop_run_lookup:
  "i < length (runsOf (loopCommands (rowLoop c cache rows))) \<Longrightarrow>
   map_of (cachedStatements (rowLoop c cache rows)) (joinKeys (objectKeys (rows ! i)))
     = Some (fst (runsOf (loopCommands (rowLoop c cache rows)) ! i))"
proof (induction rows arbitrary: cache i)
  case Nil
  then show ?case by simp
next
  case (Cons row rows)
  let ?k = "joinKeys (objectKeys row)"
  show ?case
  proof (cases "map_of cache ?k")
    case (Some h)
    obtain ext where ext: "cachedStatements (rowLoop c cache rows) = cache @ ext"
      using rowLoop_cache_ext by blast
    have here: "map_of (cachedStatements (rowLoop c cache rows)) ?k = Some h"
      using Some ext by (simp add: map_of_append_Some)
    show ?thesis
    proof (cases i)
      case 0
      with Some here show ?thesis by (simp add: Let_def)
    next
      case (Suc n)
      with Cons.prems Some have "n < length (runsOf (loopCommands (rowLoop c cache rows)))"
        by (simp add: Let_def)
      from Cons.IH[OF this] Some Suc show ?thesis by (simp add: Let_def)
    qed
  next
    case None
    show ?thesis
    proof (cases "c (objectKeys row)")
      case (Inl e)
      with None Cons.prems show ?thesis by (simp add: Let_def)
    next
      case (Inr stmt)
      let ?cache = "cache @ [(?k, length cache)]"
      obtain ext where ext: "cachedStatements (rowLoop c ?cache rows) = ?cache @ ext"
        using rowLoop_cache_ext by blast
      have "map_of ?cache ?k = Some (length cache)"
        using None by (simp add: map_add_def)
      then have here: "map_of (cachedStatements (rowLoop c ?cache rows)) ?k = Some (length cache)"
        using ext by (simp only: map_of_append_Some)
      show ?thesis
      proof (cases i)
        case 0
        with None Inr here show ?thesis by (simp add: Let_def)
      next
        case (Suc n)
        with Cons.prems None Inr
        have "n < length (runsOf (loopCommands (rowLoop c ?cache rows)))"
          by (simp add: Let_def)
        from Cons.IH[OF this] None Inr Suc show ?thesis by (simp add: Let_def)
      qed
    qed
  qed
qed

lemma distinct_snd_key:
  "distinct (map snd xs) \<Longrightarrow> (a, h) \<in> set xs \<Longrightarrow> (b, h) \<in> set xs \<Longrightarrow> a = b"
  by (induction xs) (auto simp: image_iff)

lemma executeMany_statement_text:
  assumes "i < length (runsOf (issued (executeMany engine c data)))"
  shows "\<exists>sql. (fst (runsOf (issued (executeMany engine c data)) ! i), sql)
             \<in> set (preparesOf (issued (executeMany engine c data)))
          \<and> (\<forall>sql'. (fst (runsOf (issued (executeMany engine c data)) ! i), sql')
                  \<in> set (preparesOf (issued (executeMany engine c data))) \<longrightarrow> sql' = sql)
          \<and> (\<exists>row \<in> set data. joinKeys (objectKeys row) = joinKeys (objectKeys (data ! i))
                \<and> c (objectKeys row) = Inr sql)"
proof -
  let ?r = "rowLoop c [] data"
  let ?cache = "cachedStatements ?r"
  let ?runs = "runsOf (loopCommands ?r)"
  let ?preps = "preparesOf (loopCommands ?r)"
  let ?h = "fst (?runs ! i)"
  have i: "i < length ?runs" using assms by (simp add: runsOf_executeMany)
  have look: "map_of ?cache (joinKeys (objectKeys (data ! i))) = Some ?h"
    using rowLoop_run_lookup[OF i] .
  have handles: "map snd ?cache = [0..<length ?cache]"
    using rowLoop_cache_handles[of "[]" c data] by simp
  have "(joinKeys (objectKeys (data ! i)), ?h) \<in> set ?cache"
    using look by (rule map_of_SomeD)
  then have "?h \<in> set (map snd ?cache)" by force
  then have lt: "?h < length ?cache" using handles by simp
  have pk: "map fst ?preps = [0..<length ?cache]"
    using rowLoop_prepares[of c "[]" data] by simp
  then have "?h \<in> set (map fst ?preps)" using lt by simp
  then obtain sql where sql: "(?h, sql) \<in> set ?preps" by auto
  have dist: "distinct (map fst ?preps)" using pk by simp
  have uniq: "\<forall>sql'. (?h, sql') \<in> set ?preps \<longrightarrow> sql' = sql"
    using eq_key_imp_eq_value[OF dist _ sql] by blast
  obtain row where row: "row \<in> set data" and cr: "c (objectKeys row) = Inr sql"
    and rk: "map_of ?cache (joinKeys (objectKeys row)) = Some ?h"
    using rowLoop_prepared_from[OF sql] by blast
  have m1: "(joinKeys (objectKeys row), ?h) \<in> set ?cache"
    using rk by (rule map_of_SomeD)
  have m2: "(joinKeys (objectKeys (data ! i)), ?h) \<in> set ?cache"
    using look by (rule map_of_SomeD)
  have ds: "distinct (map snd ?cache)" using handles by simp
  have same: "joinKeys (objectKeys row) = joinKeys (objectKeys (data ! i))"
    using distinct_snd_key[OF ds m1 m2] .
  show ?thesis
    unfolding runsOf_executeMany preparesOf_executeMany
    using sql uniq row cr same by blast
qed


text \<open>
  C3. The rows that are run are the first rows of the batch, in order (all of them when
  the creator never throws). Two of them with the same key list are run on the same
  prepared statement, which was prepared exactly once in the call, with one statement
  text: the text the creator returned for a key list with the same joined text. Each row
  binds its own values in the order of its keys.
\<close>

theorem C3_same_key_same_statement:
  fixes engine creator data
  defines "runs \<equiv> runsOf (issued (executeMany engine creator data))"
  assumes "i < length runs" and "j < length runs"
    and "objectKeys (data ! i) = objectKeys (data ! j)"
  shows "fst (runs ! i) = fst (runs ! j)
    \<and> count_list (map fst (preparesOf (issued (executeMany engine creator data))))
         (fst (runs ! i)) = 1
    \<and> (\<exists>sql. (fst (runs ! i), sql) \<in> set (preparesOf (issued (executeMany engine creator data)))
          \<and> (\<forall>sql'. (fst (runs ! i), sql')
                  \<in> set (preparesOf (issued (executeMany engine creator data))) \<longrightarrow> sql' = sql)
          \<and> (\<exists>row \<in> set data. joinKeys (objectKeys row) = joinKeys (objectKeys (data ! i))
                \<and> creator (objectKeys row) = Inr sql))
    \<and> snd (runs ! i) = objectValues (data ! i)
    \<and> snd (runs ! j) = objectValues (data ! j)
    \<and> zip (objectKeys (data ! i)) (snd (runs ! i)) = data ! i
    \<and> zip (objectKeys (data ! j)) (snd (runs ! j)) = data ! j
    \<and> length runs \<le> length data
    \<and> (thrown (rowLoop creator [] data) = None \<longrightarrow> length runs = length data)"
proof -
  let ?r = "rowLoop creator [] data"
  let ?cache = "cachedStatements ?r"
  let ?f = "\<lambda>row. (the (map_of ?cache (joinKeys (objectKeys row))), objectValues row)"
  have runs_def': "runs = runsOf (loopCommands ?r)"
    by (simp add: runs_def runsOf_executeMany)
  have le: "length runs \<le> length data"
    unfolding runs_def' by (rule rowLoop_runs_le)
  have all: "thrown ?r = None \<longrightarrow> length runs = length data"
    unfolding runs_def' using rowLoop_runs_all by blast
  have eq: "runs = map ?f (take (length runs) data)"
    unfolding runs_def' by (rule rowLoop_runs)
  have nth: "runs ! n = ?f (data ! n)" if "n < length runs" for n
  proof -
    have "runs ! n = map ?f (take (length runs) data) ! n" using eq by simp
    also have "\<dots> = ?f (take (length runs) data ! n)"
    proof (rule nth_map)
      show "n < length (take (length runs) data)" using that le by simp
    qed
    also have "\<dots> = ?f (data ! n)" using that by simp
    finally show ?thesis .
  qed
  have same: "fst (runs ! i) = fst (runs ! j)"
    using nth[OF assms(2)] nth[OF assms(3)] assms(4) by simp
  have vi: "snd (runs ! i) = objectValues (data ! i)" using nth[OF assms(2)] by simp
  have vj: "snd (runs ! j) = objectValues (data ! j)" using nth[OF assms(3)] by simp
  have zi: "zip (objectKeys (data ! i)) (snd (runs ! i)) = data ! i"
    by (simp add: vi objectKeys_def objectValues_def zip_map_fst_snd)
  have zj: "zip (objectKeys (data ! j)) (snd (runs ! j)) = data ! j"
    by (simp add: vj objectKeys_def objectValues_def zip_map_fst_snd)
  have "runs ! i \<in> set (runsOf (loopCommands ?r))"
    using assms(2) runs_def' by simp
  then have "(fst (runs ! i), snd (runs ! i)) \<in> set (runsOf (loopCommands ?r))" by simp
  then have "fst (runs ! i) < length ?cache"
    using rowLoop_run_handles[of "[]" "fst (runs ! i)" "snd (runs ! i)" creator data] by simp
  then have once: "count_list (map fst (preparesOf (issued (executeMany engine creator data))))
      (fst (runs ! i)) = 1"
    using rowLoop_prepares[of creator "[]" data]
    by (simp add: preparesOf_executeMany count_list_upt)
  have stmt: "\<exists>sql. (fst (runs ! i), sql) \<in> set (preparesOf (issued (executeMany engine creator data)))
          \<and> (\<forall>sql'. (fst (runs ! i), sql')
                  \<in> set (preparesOf (issued (executeMany engine creator data))) \<longrightarrow> sql' = sql)
          \<and> (\<exists>row \<in> set data. joinKeys (objectKeys row) = joinKeys (objectKeys (data ! i))
                \<and> creator (objectKeys row) = Inr sql)"
    using executeMany_statement_text[of i engine creator data] assms(2)
    unfolding runs_def by simp
  from same once stmt vi vj zi zj le all show ?thesis by blast
qed


theorem C3_same_key_same_statement_witness:
  "fst (runsOf (issued (executeMany demoEngine demoCreator demoRows)) ! 0)
     = fst (runsOf (issued (executeMany demoEngine demoCreator demoRows)) ! 1)
   \<and> snd (runsOf (issued (executeMany demoEngine demoCreator demoRows)) ! 0)
     = [JStr ''a'', JNum 1]
   \<and> snd (runsOf (issued (executeMany demoEngine demoCreator demoRows)) ! 1)
     = [JStr ''b'', JNum 2]
   \<and> length (runsOf (issued (executeMany demoEngine demoCreator demoRows))) = 3"
proof -
  have len: "length (runsOf (issued (executeMany demoEngine demoCreator demoRows))) = 3"
    by code_simp
  have i: "0 < length (runsOf (issued (executeMany demoEngine demoCreator demoRows)))"
    and j: "1 < length (runsOf (issued (executeMany demoEngine demoCreator demoRows)))"
    using len by simp_all
  have k: "objectKeys (demoRows ! 0) = objectKeys (demoRows ! 1)"
    by (simp add: demoRows_def objectKeys_def)
  have v0: "objectValues (demoRows ! 0) = [JStr ''a'', JNum 1]"
    and v1: "objectValues (demoRows ! 1) = [JStr ''b'', JNum 2]"
    by (simp_all add: demoRows_def objectValues_def)
  show ?thesis
    using C3_same_key_same_statement[OF i j k] v0 v1 len
    by simp
qed

subsection \<open>C7: the columns of a projection\<close>






subsection \<open>C8: distinct queries\<close>





subsection \<open>Helper facts about objects and the info table\<close>

lemma map_of_setProp: "map_of (setProp ps k v) = (map_of ps)(k \<mapsto> v)"
  by (induction ps) (auto simp: fun_eq_iff)

lemma keys_setProp: "fst ` set (setProp ps k v) = insert k (fst ` set ps)"
proof (induction ps)
  case Nil
  then show ?case by simp
next
  case (Cons p ps)
  obtain a b where p: "p = (a, b)" by (cases p)
  show ?case
  proof (cases "a = k")
    case True
    with p show ?thesis by simp
  next
    case False
    with p Cons.IH show ?thesis by auto
  qed
qed

lemma distinct_setProp: "distinct (map fst ps) \<Longrightarrow> distinct (map fst (setProp ps k v))"
proof (induction ps)
  case Nil
  then show ?case by simp
next
  case (Cons p ps)
  obtain a b where p: "p = (a, b)" by (cases p)
  show ?case
  proof (cases "a = k")
    case True
    with p Cons.prems show ?thesis by simp
  next
    case False
    with p Cons show ?thesis by (auto simp: keys_setProp)
  qed
qed

lemma getProp_setProp: "getProp (setProp ps k v) k' = (if k' = k then v else getProp ps k')"
  by (simp add: getProp_def map_of_setProp)

lemma fold_setProp_map_of:
  "distinct (map fst ps) \<Longrightarrow>
   map_of (fold (\<lambda>(k, v) t. setProp t k v) ps acc) k
     = (case map_of ps k of Some v \<Rightarrow> Some v | None \<Rightarrow> map_of acc k)"
proof (induction ps arbitrary: acc)
  case Nil
  then show ?case by simp
next
  case (Cons p ps)
  obtain a b where p: "p = (a, b)" by (cases p)
  from Cons.prems p have d: "distinct (map fst ps)" and na: "a \<notin> fst ` set ps" by auto
  from na have none: "map_of ps a = None" by (simp add: map_of_eq_None_iff)
  show ?case
    using Cons.IH[OF d, of "setProp acc a b"] p none
    by (auto simp: map_of_setProp split: option.splits)
qed

lemma getGeneralSchema_infoTable:
  "infoTable (snd (getGeneralSchema c db)) = infoTable db"
  by (auto simp: getGeneralSchema_def split: option.splits sum.splits list.splits)

lemma runStatement_infoTable:
  "runStatement runAsync db sql = Inr db' \<Longrightarrow> infoTable db' = infoTable db"
  by (auto simp: runStatement_def split: option.splits)

lemma createNewDataset_infoTable:
  assumes "createNewDataset c runAsync db options = (Inr i, db')"
  shows "infoTable db' = Some (fold (\<lambda>(k, v) t. setProp t k v) options [])
       \<and> i = getProp options ''id''"
proof -
  let ?db1 = "(createInfoTable db)\<lparr>infoTable := Some (fold (\<lambda>(k, v) t. setProp t k v) options [])\<rparr>"
  have set: "setInfoKeys (createInfoTable db) options = Inr ?db1"
    by (simp add: setInfoKeys_def createInfoTable_def)
  obtain r db2 where g: "getGeneralSchema c ?db1 = (r, db2)" by (cases "getGeneralSchema c ?db1")
  have i2: "infoTable db2 = Some (fold (\<lambda>(k, v) t. setProp t k v) options [])"
    using getGeneralSchema_infoTable[of c ?db1] g by simp
  show ?thesis
    using assms set g i2
    by (auto simp: createNewDataset_def Let_def
        split: sum.splits if_splits dest!: runStatement_infoTable)
qed

lemma withDefaults_keys:
  assumes "withDefaults freshId options0 = Inr options" and "distinct (map fst options0)"
  shows "distinct (map fst options)"
    and "map_of options ''id'' = Some (getProp options ''id'')"
    and "map_of options ''schema'' = Some (getProp options ''schema'')"
    and "\<exists>sch. getProp options ''schema'' = JObj sch"
proof -
  let ?o1 = "setProp options0 ''id'' (orElse (getProp options0 ''id'') (JStr freshId))"
  from assms(1) obtain sch2 where o: "options = setProp ?o1 ''schema'' (JObj sch2)"
    by (auto simp: withDefaults_def Let_def split: jsval.splits)
  show "distinct (map fst options)"
    using assms(2) o by (simp add: distinct_setProp)
  show "map_of options ''id'' = Some (getProp options ''id'')"
    using o by (simp add: getProp_def map_of_setProp)
  show "map_of options ''schema'' = Some (getProp options ''schema'')"
    using o by (simp add: getProp_def map_of_setProp)
  show "\<exists>sch. getProp options ''schema'' = JObj sch"
    using o by (simp add: getProp_setProp)
qed

subsection \<open>C9: creating a dataset that exists\<close>

text \<open>
  C9 as stated fails on the kind of the error: a schema with a unique index and no data
  schema is refused by the early check, before the stored schema is read, with the error
  "index doesn't match schema" and not with "schemas don't coincide".
\<close>

theorem C9_index_error_counterexample:
  "createDataset demoConstants (\<lambda>sql. None) ''id2'' demoDb demoIndexOnlyOptions
     = (Inl IndexDoesntMatchSchema, demoDb)
   \<and> createDataset demoConstants (\<lambda>sql. None) ''id2'' demoDb demoIndexOnlyOptions
     \<noteq> (Inl SchemasDontCoincide, demoDb)"
proof -
  have "createDataset demoConstants (\<lambda>sql. None) ''id2'' demoDb demoIndexOnlyOptions
     = (Inl IndexDoesntMatchSchema, demoDb)"
    by code_simp
  then show ?thesis by simp
qed

lemma createDataset_existing:
  assumes "infoTable db = Some info"
    and "map_of info ''id'' = Some storedId"
    and "map_of info ''schema'' = Some storedSchema"
    and "withDefaults freshId options0 = Inr options"
  shows "(indexWithoutSchema options \<longrightarrow>
            createDataset c runAsync freshId db options0 = (Inl IndexDoesntMatchSchema, db))
    \<and> (\<not> indexWithoutSchema options
         \<and> \<not> isEqual (orElse storedSchema (JObj [])) (getProp options ''schema'') \<longrightarrow>
            createDataset c runAsync freshId db options0 = (Inl SchemasDontCoincide, db))
    \<and> (\<not> indexWithoutSchema options
         \<and> isEqual (orElse storedSchema (JObj [])) (getProp options ''schema'') \<longrightarrow>
            createDataset c runAsync freshId db options0 = (Inr (orElse storedId (JStr [])), db))"
proof -
  have pair: "getInfoKeys db [''id'', ''schema'']
      = Inr [[(''id'', storedId)], [(''schema'', storedSchema)]]"
    using assms(1,2,3) by (simp add: getInfoKeys_def)
  have chk: "checkInfoTable db" using assms(1) by (simp add: checkInfoTable_def)
  show ?thesis
    using assms(4) pair chk
    by (simp add: createDataset_def getProp_def Let_def)
qed

text \<open>
  C9, amended: in a database whose info table holds an id and a schema, let \<open>options\<close> be
  the options of the call with the defaults filled in (an absent data schema is \<open>{}\<close>, an
  absent unique index \<open>[]\<close>). If they have a unique index but an empty data schema the
  call fails with the index error. Otherwise, if their schema is not structurally equal
  to the stored one, the call fails with the schema-mismatch error; if it is, the call
  succeeds and returns the stored id. In all three cases the database is unchanged.
\<close>

theorem C9_recreate:
  assumes "infoTable db = Some info"
    and "map_of info ''id'' = Some storedId"
    and "map_of info ''schema'' = Some storedSchema"
    and "withDefaults freshId options0 = Inr options"
  shows "(indexWithoutSchema options \<longrightarrow>
            createDataset c runAsync freshId db options0 = (Inl IndexDoesntMatchSchema, db))
    \<and> (\<not> indexWithoutSchema options
         \<and> \<not> isEqual (orElse storedSchema (JObj [])) (getProp options ''schema'') \<longrightarrow>
            createDataset c runAsync freshId db options0 = (Inl SchemasDontCoincide, db))
    \<and> (\<not> indexWithoutSchema options
         \<and> isEqual (orElse storedSchema (JObj [])) (getProp options ''schema'') \<longrightarrow>
            createDataset c runAsync freshId db options0 = (Inr (orElse storedId (JStr [])), db))"
  using assms by (rule createDataset_existing)

text \<open>
  The hypotheses above hold in every database that \<open>createDataset\<close> has made: a call
  that succeeds where there was no info table stores the id it returns and the schema of
  its options, defaults included. So a second call on that database is decided by the
  early check and by the comparison of the two schemas.
\<close>

lemma createDataset_created:
  assumes "infoTable db = None"
    and "distinct (map fst options0)"
    and "withDefaults freshId options0 = Inr options"
    and "createDataset c runAsync freshId db options0 = (Inr i, db')"
  shows "\<exists>info. infoTable db' = Some info
          \<and> map_of info ''id'' = Some i
          \<and> map_of info ''schema'' = Some (getProp options ''schema'')"
    and "\<not> indexWithoutSchema options"
    and "i = getProp options ''id''"
proof -
  from assms(3,4) show nw: "\<not> indexWithoutSchema options"
    by (auto simp: createDataset_def split: if_splits)
  from assms(1) have "\<not> checkInfoTable db" by (simp add: checkInfoTable_def)
  with assms(3,4) nw have new: "createNewDataset c runAsync db options = (Inr i, db')"
    by (simp add: createDataset_def)
  from createNewDataset_infoTable[OF new]
  have info: "infoTable db' = Some (fold (\<lambda>(k, v) t. setProp t k v) options [])"
    and i: "i = getProp options ''id''" by simp_all
  show "i = getProp options ''id''" by (rule i)
  have d: "distinct (map fst options)"
    using withDefaults_keys(1)[OF assms(3,2)] .
  have "map_of (fold (\<lambda>(k, v) t. setProp t k v) options []) ''id'' = Some i"
    using fold_setProp_map_of[OF d, of "[]" "''id''"] withDefaults_keys(2)[OF assms(3,2)] i
    by simp
  moreover have "map_of (fold (\<lambda>(k, v) t. setProp t k v) options []) ''schema''
      = Some (getProp options ''schema'')"
    using fold_setProp_map_of[OF d, of "[]" "''schema''"] withDefaults_keys(3)[OF assms(3,2)]
    by simp
  ultimately show "\<exists>info. infoTable db' = Some info
          \<and> map_of info ''id'' = Some i
          \<and> map_of info ''schema'' = Some (getProp options ''schema'')"
    using info by blast
qed

lemma createDataset_again:
  assumes "infoTable db = None"
    and "distinct (map fst options0)"
    and "withDefaults freshId options0 = Inr options"
    and "createDataset c runAsync freshId db options0 = (Inr i, db')"
    and "withDefaults freshId' options0' = Inr options'"
  shows "createDataset c runAsync' freshId' db' options0'
     = (if indexWithoutSchema options' then (Inl IndexDoesntMatchSchema, db')
        else if isEqual (getProp options ''schema'') (getProp options' ''schema'')
        then (Inr (orElse i (JStr [])), db')
        else (Inl SchemasDontCoincide, db'))"
proof -
  from createDataset_created(1)[OF assms(1-4)] obtain info where
    info: "infoTable db' = Some info" and sid: "map_of info ''id'' = Some i"
    and sch: "map_of info ''schema'' = Some (getProp options ''schema'')" by blast
  obtain s where s: "getProp options ''schema'' = JObj s"
    using withDefaults_keys(4)[OF assms(3,2)] by blast
  have tr: "orElse (getProp options ''schema'') (JObj []) = getProp options ''schema''"
    by (simp add: s orElse_def)
  show ?thesis
    using createDataset_existing[OF info sid sch assms(5), of c runAsync'] tr
    by auto
qed

lemma demoDb_value:
  "demoDb =
     \<lparr>infoTable = Some
        [(''schema'', JObj
           [(''dataSchema'', JObj
               [(''id'', JObj [(''__tdxType'', JArr [JStr ''string''])]),
                (''count'', JObj [(''__tdxType'', JArr [JStr ''number'', JStr ''int''])])]),
            (''uniqueIndex'', JArr [JObj [(''asc'', JStr ''id'')]])]),
         (''id'', JStr ''id1'')],
      generalSchema = Some [(''id'', ''TEXT''), (''count'', ''INTEGER'')],
      executed = [''CREATE TABLE data(id TEXT,count INTEGER)'',
                  ''CREATE UNIQUE INDEX dataindex ON data(id ASC)'']\<rparr>"
  by code_simp

theorem C9_recreate_witness:
  "createDataset demoConstants (\<lambda>sql. None) ''id1'' emptyDb demoOptions = (Inr (JStr ''id1''), demoDb)
   \<and> createDataset demoConstants (\<lambda>sql. None) ''id2'' demoDb demoOptions = (Inr (JStr ''id1''), demoDb)
   \<and> createDataset demoConstants (\<lambda>sql. None) ''id2'' demoDb demoOtherOptions
        = (Inl SchemasDontCoincide, demoDb)
   \<and> createDataset demoConstants (\<lambda>sql. None) ''id2'' demoDb demoIndexOnlyOptions
        = (Inl IndexDoesntMatchSchema, demoDb)"
proof -
  let ?stored = "JObj
           [(''dataSchema'', JObj
               [(''id'', JObj [(''__tdxType'', JArr [JStr ''string''])]),
                (''count'', JObj [(''__tdxType'', JArr [JStr ''number'', JStr ''int''])])]),
            (''uniqueIndex'', JArr [JObj [(''asc'', JStr ''id'')]])]"
  let ?info = "[(''schema'', ?stored), (''id'', JStr ''id1'')]"
  have first: "createDataset demoConstants (\<lambda>sql. None) ''id1'' emptyDb demoOptions
      = (Inr (JStr ''id1''), demoDb)"
    by code_simp
  have info: "infoTable demoDb = Some ?info" by (simp add: demoDb_value)
  have sid: "map_of ?info ''id'' = Some (JStr ''id1'')" by simp
  have sch: "map_of ?info ''schema'' = Some ?stored" by simp
  let ?o1 = "[(''schema'', ?stored), (''id'', JStr ''id2'')]"
  let ?other = "JObj
           [(''dataSchema'', JObj
               [(''id'', JObj [(''__tdxType'', JArr [JStr ''string''])])]),
            (''uniqueIndex'', JArr [JObj [(''asc'', JStr ''id'')]])]"
  let ?o2 = "[(''schema'', ?other), (''id'', JStr ''id2'')]"
  let ?o3 = "[(''schema'', JObj [(''uniqueIndex'', JArr [JObj [(''asc'', JStr ''id'')]]),
                                  (''dataSchema'', JObj [])]),
              (''id'', JStr ''id2'')]"
  have o1: "withDefaults ''id2'' demoOptions = Inr ?o1" by code_simp
  have o2: "withDefaults ''id2'' demoOtherOptions = Inr ?o2" by code_simp
  have o3: "withDefaults ''id2'' demoIndexOnlyOptions = Inr ?o3" by code_simp
  have i1: "\<not> indexWithoutSchema ?o1" by code_simp
  have i2: "\<not> indexWithoutSchema ?o2" by code_simp
  have i3: "indexWithoutSchema ?o3" by code_simp
  have e1: "isEqual (orElse ?stored (JObj [])) (getProp ?o1 ''schema'')" by code_simp
  have e2: "\<not> isEqual (orElse ?stored (JObj [])) (getProp ?o2 ''schema'')" by code_simp
  have id: "orElse (JStr ''id1'') (JStr []) = JStr ''id1''" by code_simp
  show ?thesis
    using first
      C9_recreate[OF info sid sch o1, of demoConstants "\<lambda>sql. None"]
      C9_recreate[OF info sid sch o2, of demoConstants "\<lambda>sql. None"]
      C9_recreate[OF info sid sch o3, of demoConstants "\<lambda>sql. None"]
      i1 i2 i3 e1 e2 id
    by simp
qed

subsection \<open>C10: rows with fields that are no columns\<close>
















end
